theory Spec2Isabelle
  imports
    Complex_Main
    "HOL-Library.Multiset"
    "HOL-Library.Char_ord"
    "HOL-Library.List_Lexorder"
    "HOL-Library.Product_Lexorder"
    "HOL-Library.Option_ord"
    "HOL-Library.AList"
begin

section \<open>Network utilization dashboard: validator, filter layer, aggregation engine\<close>

text \<open>
  A shallow embedding of \<^verbatim>\<open>app.py\<close> (\<^verbatim>\<open>_apply_aliases\<close>, \<^verbatim>\<open>read_network_csv\<close>, the
  filter mask) and of \<^verbatim>\<open>src/analyze_network.py\<close> (\<^verbatim>\<open>compute_aggregations\<close>).

  Conventions of the model.
  \<^item> A finite float64 value is an exact rational (\<open>rat\<close>): rounding, overflow and the sign
    of zero are not modelled. A nullable numeric cell is a \<open>rat option\<close>, \<open>None\<close> being
    pandas' NaN. Infinite values occur only inside the utilization backfill, where a
    division by zero produces them; they are modelled there (\<open>xfloat\<close>).
  \<^item> A \<^verbatim>\<open>pandas.Timestamp\<close> is its integer count of nanoseconds since
    1970-01-01T00:00:00 (time-zone naive); \<open>None\<close> is NaT. A calendar date is its day
    number since 1970-01-01.
  \<^item> A categorical cell is a \<open>string option\<close>, \<open>None\<close> being a missing value.
  \<^item> \<open>None \<le> Some x\<close> in the order on options, so a descending sort puts missing values
    last, as pandas does (\<^verbatim>\<open>na_position='last'\<close>).
\<close>

subsection \<open>Time\<close>

definition NS_PER_SEC :: int where
  "NS_PER_SEC = 1000000000"

definition NS_PER_HOUR :: int where
  "NS_PER_HOUR = 3600 * NS_PER_SEC"

definition NS_PER_DAY :: int where
  "NS_PER_DAY = 86400 * NS_PER_SEC"

text \<open>\<^verbatim>\<open>Series.dt.date\<close> and \<^verbatim>\<open>Series.dt.hour\<close> on one timestamp.\<close>

definition dt_date :: "int \<Rightarrow> int" where
  "dt_date t = t div NS_PER_DAY"

definition dt_hour :: "int \<Rightarrow> int" where
  "dt_hour t = (t mod NS_PER_DAY) div NS_PER_HOUR"

subsection \<open>Usage records\<close>

text \<open>One row of the table after loading: the twelve required columns.\<close>

record usage_record =
  timestamp :: "int option"
  region :: "string option"
  city :: "string option"
  site_id :: "string option"
  cell_id :: "string option"
  tech :: "string option"
  capacity_mbps :: "rat option"
  throughput_mbps :: "rat option"
  utilization_pct :: "rat option"
  latency_ms :: "rat option"
  packet_loss_pct :: "rat option"
  users_active :: "rat option"

subsection \<open>Raw tables\<close>

text \<open>
  The table that \<^verbatim>\<open>pd.read_csv\<close> returns: its columns in order, each a name with the
  cells of the column. A cell is missing, a string, a number or a timestamp. All columns
  of a table have the same length and distinct names. \<^verbatim>\<open>df[c]\<close> reads the column named
  \<open>c\<close> (a \<^verbatim>\<open>KeyError\<close> when there is none); \<^verbatim>\<open>df[c] = v\<close> replaces it in place, or
  appends it when there is none.
\<close>

datatype cell = Null | Str string | Number rat | Time int

type_synonym dataframe = "(string \<times> cell list) list"

definition df_columns :: "dataframe \<Rightarrow> string list" where
  "df_columns df = map fst df"

definition get_column :: "dataframe \<Rightarrow> string \<Rightarrow> cell list option" where
  "get_column df c = map_of df c"

definition set_column :: "dataframe \<Rightarrow> string \<Rightarrow> cell list \<Rightarrow> dataframe" where
  "set_column df c v = AList.update c v df"

text \<open>\<^verbatim>\<open>df.rename(columns={a: canonical}, inplace=True)\<close>.\<close>

definition rename_column :: "string \<Rightarrow> string \<Rightarrow> dataframe \<Rightarrow> dataframe" where
  "rename_column a canonical df = map (\<lambda>(n, v). (if n = a then canonical else n, v)) df"

subsection \<open>Validator and normalizer (\<^verbatim>\<open>app.py\<close>, lines 25 to 77)\<close>

definition REQUIRED_COLS :: "string set" where
  "REQUIRED_COLS =
     {''timestamp'', ''region'', ''city'', ''site_id'', ''cell_id'', ''tech'',
      ''capacity_mbps'', ''throughput_mbps'', ''utilization_pct'',
      ''latency_ms'', ''packet_loss_pct'', ''users_active''}"

text \<open>
  \<^verbatim>\<open>_apply_aliases\<close> (here \<open>apply_aliases\<close>): the dictionary has the one entry for
  \<open>timestamp\<close>; the inner loop renames the first alternative that is a column and
  stops.
\<close>

definition timestamp_alts :: "string list" where
  "timestamp_alts = [''timestamp'', ''time'', ''datetime'', ''event_time'', ''date_time'']"

fun rename_first :: "string \<Rightarrow> string list \<Rightarrow> dataframe \<Rightarrow> dataframe" where
  "rename_first canonical [] df = df"
| "rename_first canonical (a # alts) df =
     (if a \<in> set (df_columns df) then rename_column a canonical df
      else rename_first canonical alts df)"

definition apply_aliases :: "dataframe \<Rightarrow> dataframe" where
  "apply_aliases df =
     (if ''timestamp'' \<notin> set (df_columns df)
      then rename_first ''timestamp'' timestamp_alts df
      else df)"

text \<open>
  The exceptions of \<^verbatim>\<open>read_network_csv\<close>. The two \<^verbatim>\<open>ValueError\<close>s of the source differ
  in their message; they are told apart here under the names the specification gives
  them: \<open>SchemaError missing expected\<close> carries the two sorted lists of the message,
  \<open>TimestampError\<close> is the error of a timestamp column without a valid value.
\<close>

datatype load_error =
    SchemaError "string list" "string list"
  | TimestampError
  | KeyError string

text \<open>Cells of a parsed timestamp column and of a coerced numeric column, and back.\<close>

definition time_cell :: "int option \<Rightarrow> cell" where
  "time_cell t = (case t of None \<Rightarrow> Null | Some x \<Rightarrow> Time x)"

definition num_cell :: "rat option \<Rightarrow> cell" where
  "num_cell v = (case v of None \<Rightarrow> Null | Some x \<Rightarrow> Number x)"

definition cell_num :: "cell \<Rightarrow> rat option" where
  "cell_num c = (case c of Number x \<Rightarrow> Some x | _ \<Rightarrow> None)"

text \<open>
  Float arithmetic of the backfill, \<^verbatim>\<open>(throughput / capacity) * 100.0\<close> then
  \<^verbatim>\<open>clip(lower=0, upper=100)\<close>, on the cells of coerced columns (finite or NaN). Under
  \<^verbatim>\<open>np.errstate(divide="ignore", invalid="ignore")\<close> a division by zero raises nothing:
  it gives an infinity, and 0 / 0 gives NaN. \<^verbatim>\<open>clip\<close> leaves NaN as it is and brings an
  infinity to the bound. A zero is the positive zero, as the CSV texts \<open>0\<close> and \<open>0.0\<close>
  give it.
\<close>

datatype xfloat = NaN | NegInf | Finite rat | PosInf

definition float_div :: "rat option \<Rightarrow> rat option \<Rightarrow> xfloat" where
  "float_div a b =
     (case a of None \<Rightarrow> NaN
      | Some x \<Rightarrow>
          (case b of None \<Rightarrow> NaN
           | Some y \<Rightarrow>
               if y \<noteq> 0 then Finite (x / y)
               else if x = 0 then NaN
               else if 0 < x then PosInf
               else NegInf))"

definition float_mul :: "xfloat \<Rightarrow> rat \<Rightarrow> xfloat" where
  "float_mul a k =
     (case a of
        NaN \<Rightarrow> NaN
      | Finite x \<Rightarrow> Finite (x * k)
      | PosInf \<Rightarrow> (if 0 < k then PosInf else if k < 0 then NegInf else NaN)
      | NegInf \<Rightarrow> (if 0 < k then NegInf else if k < 0 then PosInf else NaN))"

definition clip :: "xfloat \<Rightarrow> rat \<Rightarrow> rat \<Rightarrow> rat option" where
  "clip a lower upper =
     (case a of
        NaN \<Rightarrow> None
      | NegInf \<Rightarrow> Some lower
      | PosInf \<Rightarrow> Some upper
      | Finite x \<Rightarrow> Some (min (max x lower) upper))"

text \<open>
  Lines 71 to 76 on the three coerced columns: \<^verbatim>\<open>calc\<close> is computed for every row, and
  \<^verbatim>\<open>df.loc[need_util, "utilization_pct"] = calc.clip(lower=0, upper=100)\<close> writes it to the
  rows where the utilization is missing.
\<close>

definition calc_utilization :: "rat option list \<Rightarrow> rat option list \<Rightarrow> xfloat list" where
  "calc_utilization throughput capacity =
     map (\<lambda>(t, c). float_mul (float_div t c) 100) (zip throughput capacity)"

definition loc_assign :: "bool list \<Rightarrow> 'a list \<Rightarrow> 'a list \<Rightarrow> 'a list" where
  "loc_assign m old new = map (\<lambda>(need, o', n). if need then n else o') (zip m (zip old new))"

definition backfill_utilization :: "dataframe \<Rightarrow> load_error + dataframe" where
  "backfill_utilization df =
     (if ''utilization_pct'' \<in> set (df_columns df) then
        (case get_column df ''utilization_pct'' of
           None \<Rightarrow> Inl (KeyError ''utilization_pct'')
         | Some util \<Rightarrow>
             let need_util = map (\<lambda>c. cell_num c = None) util in
             if list_ex (\<lambda>b. b) need_util then
               (case get_column df ''throughput_mbps'' of
                  None \<Rightarrow> Inl (KeyError ''throughput_mbps'')
                | Some thr \<Rightarrow>
                    (case get_column df ''capacity_mbps'' of
                       None \<Rightarrow> Inl (KeyError ''capacity_mbps'')
                     | Some cap \<Rightarrow>
                         let calc = calc_utilization (map cell_num thr) (map cell_num cap);
                             clipped = map (\<lambda>x. clip x 0 100) calc
                         in Inr (set_column df ''utilization_pct''
                                   (map num_cell
                                      (loc_assign need_util (map cell_num util) clipped)))))
             else Inr df)
      else Inr df)"

text \<open>
  Lines 64 to 69: each numeric column is replaced by its coercion.
  \<^verbatim>\<open>pd.to_numeric(column, errors="coerce")\<close> and \<^verbatim>\<open>pd.to_datetime(column, errors="coerce")\<close>
  are functions of the library and parameters of the model: a column of cells goes to a
  column of numbers (of timestamps), with what cannot be parsed missing.
\<close>

definition numeric_cols :: "string list" where
  "numeric_cols =
     [''capacity_mbps'', ''throughput_mbps'', ''utilization_pct'',
      ''latency_ms'', ''packet_loss_pct'', ''users_active'']"

fun coerce_numeric ::
  "(cell list \<Rightarrow> rat option list) \<Rightarrow> string list \<Rightarrow> dataframe \<Rightarrow> load_error + dataframe" where
  "coerce_numeric to_numeric [] df = Inr df"
| "coerce_numeric to_numeric (c # cs) df =
     (case get_column df c of
        None \<Rightarrow> Inl (KeyError c)
      | Some col \<Rightarrow> coerce_numeric to_numeric cs (set_column df c (map num_cell (to_numeric col))))"

text \<open>\<^verbatim>\<open>read_network_csv\<close>, from the table that \<^verbatim>\<open>pd.read_csv\<close> has read.\<close>

definition read_network_csv ::
  "(cell list \<Rightarrow> int option list) \<Rightarrow> (cell list \<Rightarrow> rat option list) \<Rightarrow>
   string set \<Rightarrow> dataframe \<Rightarrow> load_error + dataframe" where
  "read_network_csv to_datetime to_numeric required_cols df0 =
     (let df = apply_aliases df0;
          missing = required_cols - set (df_columns df)
      in
        if missing \<noteq> {} then
          Inl (SchemaError (sorted_list_of_set missing) (sorted_list_of_set required_cols))
        else
          (case get_column df ''timestamp'' of
             None \<Rightarrow> Inl (KeyError ''timestamp'')
           | Some raw \<Rightarrow>
               let parsed = to_datetime raw;
                   df = set_column df ''timestamp'' (map time_cell parsed)
               in
                 if list_all (\<lambda>t. t = None) parsed then Inl TimestampError
                 else
                   (case coerce_numeric to_numeric numeric_cols df of
                      Inl e \<Rightarrow> Inl e
                    | Inr df \<Rightarrow> backfill_utilization df)))"

text \<open>
  What lines 71 to 76 leave in a cell of the utilization column, from the coerced
  utilization, throughput and capacity of the row.
\<close>

definition backfilled :: "rat option \<Rightarrow> rat option \<Rightarrow> rat option \<Rightarrow> rat option" where
  "backfilled util thr cap =
     (case util of
        Some v \<Rightarrow> Some v
      | None \<Rightarrow> clip (float_mul (float_div thr cap) 100) 0 100)"

subsection \<open>Filter layer (\<^verbatim>\<open>app.py\<close>, lines 166 to 177)\<close>

text \<open>
  \<^verbatim>\<open>start_date = pd.to_datetime(date_range[0])\<close> is midnight of the first day;
  \<^verbatim>\<open>end_date = pd.to_datetime(date_range[1]) + Timedelta(days=1) - Timedelta(seconds=1)\<close>.
\<close>

definition start_date :: "int \<Rightarrow> int" where
  "start_date d0 = d0 * NS_PER_DAY"

definition end_date :: "int \<Rightarrow> int" where
  "end_date d1 = d1 * NS_PER_DAY + NS_PER_DAY - NS_PER_SEC"

text \<open>A comparison of a timestamp column with a bound is false on NaT.\<close>

definition ts_ge :: "int option \<Rightarrow> int \<Rightarrow> bool" where
  "ts_ge t b = (case t of None \<Rightarrow> False | Some x \<Rightarrow> x \<ge> b)"

definition ts_le :: "int option \<Rightarrow> int \<Rightarrow> bool" where
  "ts_le t b = (case t of None \<Rightarrow> False | Some x \<Rightarrow> x \<le> b)"

text \<open>
  \<^verbatim>\<open>Series.isin(values)\<close> on one cell. The selected values come from a multiselect over
  \<^verbatim>\<open>df[col].dropna().unique()\<close>, so they are strings and a missing cell is never a member.
\<close>

definition isin :: "string option \<Rightarrow> string list \<Rightarrow> bool" where
  "isin v vals = (case v of None \<Rightarrow> False | Some s \<Rightarrow> s \<in> set vals)"

text \<open>
  The mask of one row. Each \<^verbatim>\<open>if xs: mask &= ...\<close> is applied only for a non-empty
  selection.
\<close>

definition mask_row ::
  "int \<Rightarrow> int \<Rightarrow> string list \<Rightarrow> string list \<Rightarrow> string list \<Rightarrow> string list \<Rightarrow>
   usage_record \<Rightarrow> bool" where
  "mask_row d0 d1 techs regions cities sites r =
    (let m = ts_ge (timestamp r) (start_date d0) \<and> ts_le (timestamp r) (end_date d1);
         m = (if techs \<noteq> [] then m \<and> isin (tech r) techs else m);
         m = (if regions \<noteq> [] then m \<and> isin (region r) regions else m);
         m = (if cities \<noteq> [] then m \<and> isin (city r) cities else m);
         m = (if sites \<noteq> [] then m \<and> isin (site_id r) sites else m)
     in m)"

text \<open>\<^verbatim>\<open>df_f = df.loc[mask].copy()\<close>: the rows whose mask is true, in their order.\<close>

definition apply_filters ::
  "int \<Rightarrow> int \<Rightarrow> string list \<Rightarrow> string list \<Rightarrow> string list \<Rightarrow> string list \<Rightarrow>
   usage_record list \<Rightarrow> usage_record list" where
  "apply_filters d0 d1 techs regions cities sites df =
     filter (mask_row d0 d1 techs regions cities sites) df"

subsection \<open>Aggregation engine (\<^verbatim>\<open>src/analyze_network.py\<close>): grouping and aggregates\<close>

text \<open>
  The two derived columns, \<^verbatim>\<open>df["date"] = df["timestamp"].dt.date\<close> and
  \<^verbatim>\<open>df["hour"] = df["timestamp"].dt.hour\<close>; both are missing where the timestamp is NaT.
  (The caller's own \<^verbatim>\<open>hour\<close> column, when present, is computed by the same expression.)
\<close>

definition row_date :: "usage_record \<Rightarrow> int option" where
  "row_date r = map_option dt_date (timestamp r)"

definition row_hour :: "usage_record \<Rightarrow> int option" where
  "row_hour r = map_option dt_hour (timestamp r)"

text \<open>
  \<^verbatim>\<open>df.groupby(keys, as_index=False)\<close> with the defaults \<^verbatim>\<open>sort=True, dropna=True\<close>: a row
  whose key has a missing component belongs to no group, and the groups come in
  ascending order of their keys. A key over two columns is the pair of their cells.
\<close>

definition two_keys :: "'a option \<Rightarrow> 'b option \<Rightarrow> ('a \<times> 'b) option" where
  "two_keys a b =
     (case a of None \<Rightarrow> None
      | Some x \<Rightarrow> (case b of None \<Rightarrow> None | Some y \<Rightarrow> Some (x, y)))"

fun present_keys :: "('r \<Rightarrow> 'k option) \<Rightarrow> 'r list \<Rightarrow> 'k list" where
  "present_keys key [] = []"
| "present_keys key (r # rs) =
     (case key r of None \<Rightarrow> present_keys key rs | Some k \<Rightarrow> k # present_keys key rs)"

definition groupby_keys :: "('r \<Rightarrow> 'k option) \<Rightarrow> 'r list \<Rightarrow> ('k::linorder) list" where
  "groupby_keys key df = sort (remdups (present_keys key df))"

definition group_rows :: "('r \<Rightarrow> 'k option) \<Rightarrow> 'r list \<Rightarrow> 'k \<Rightarrow> 'r list" where
  "group_rows key df k = filter (\<lambda>r. key r = Some k) df"

definition site_hour_key :: "usage_record \<Rightarrow> (string \<times> int) option" where
  "site_hour_key r = two_keys (site_id r) (row_hour r)"

definition site_day_key :: "usage_record \<Rightarrow> (string \<times> int) option" where
  "site_day_key r = two_keys (site_id r) (row_date r)"

definition hour_tech_key :: "usage_record \<Rightarrow> (int \<times> string) option" where
  "hour_tech_key r = two_keys (row_hour r) (tech r)"

text \<open>
  The group aggregates \<^verbatim>\<open>"mean"\<close> and \<^verbatim>\<open>"max"\<close>: one pass over the cells of the group
  that skips a missing cell, with the running sum and count (the running maximum); the
  result is missing when no cell was counted.
\<close>

fun mean_acc :: "rat option list \<Rightarrow> rat \<Rightarrow> nat \<Rightarrow> rat option" where
  "mean_acc [] s n = (if n = 0 then None else Some (s / of_nat n))"
| "mean_acc (None # xs) s n = mean_acc xs s n"
| "mean_acc (Some v # xs) s n = mean_acc xs (s + v) (Suc n)"

definition mean_agg :: "rat option list \<Rightarrow> rat option" where
  "mean_agg xs = mean_acc xs 0 0"

fun max_acc :: "rat option list \<Rightarrow> rat option \<Rightarrow> rat option" where
  "max_acc [] m = m"
| "max_acc (None # xs) m = max_acc xs m"
| "max_acc (Some v # xs) m =
     max_acc xs (case m of None \<Rightarrow> Some v | Some w \<Rightarrow> Some (max w v))"

definition max_agg :: "rat option list \<Rightarrow> rat option" where
  "max_agg xs = max_acc xs None"

text \<open>\<^verbatim>\<open>Series.dropna()\<close> and \<^verbatim>\<open>Series.notna().any()\<close> on a numeric column.\<close>

fun dropna :: "'a option list \<Rightarrow> 'a list" where
  "dropna [] = []"
| "dropna (None # xs) = dropna xs"
| "dropna (Some v # xs) = v # dropna xs"

definition notna_any :: "'a option list \<Rightarrow> bool" where
  "notna_any xs = list_ex (\<lambda>x. x \<noteq> None) xs"

text \<open>
  \<^verbatim>\<open>np.percentile(a, q)\<close> with the default linear interpolation: on the sorted values, the
  value at the position \<open>q / 100 * (n - 1)\<close>, interpolated between its two neighbours.
  What NumPy does on an empty array depends on its version (an \<^verbatim>\<open>IndexError\<close> in older
  releases, a NaN with a warning in later ones); the model takes the error.
\<close>

datatype agg_error = IndexError

definition np_percentile :: "rat list \<Rightarrow> rat \<Rightarrow> agg_error + rat" where
  "np_percentile a q =
     (if a = [] then Inl IndexError
      else
        let s = sort a;
            n = length s;
            pos = q / 100 * of_nat (n - 1);
            lo = nat \<lfloor>pos\<rfloor>;
            hi = min (lo + 1) (n - 1);
            g = pos - of_int \<lfloor>pos\<rfloor>
        in Inr (s ! lo + (s ! hi - s ! lo) * g))"

text \<open>
  The aggregate of \<^verbatim>\<open>p95_util\<close>:
  \<^verbatim>\<open>lambda s: np.percentile(s.dropna(), 95) if s.notna().any() else np.nan\<close>.
\<close>

definition p95_agg :: "rat option list \<Rightarrow> agg_error + rat option" where
  "p95_agg s =
     (if notna_any s
      then (case np_percentile (dropna s) 95 of Inl e \<Rightarrow> Inl e | Inr v \<Rightarrow> Inr (Some v))
      else Inr None)"

text \<open>The aggregates of all groups, in order; the first exception ends the call.\<close>

fun collect :: "('e + 'a) list \<Rightarrow> 'e + 'a list" where
  "collect [] = Inr []"
| "collect (x # xs) =
     (case x of Inl e \<Rightarrow> Inl e
      | Inr v \<Rightarrow> (case collect xs of Inl e \<Rightarrow> Inl e | Inr vs \<Rightarrow> Inr (v # vs)))"

subsection \<open>The five derived tables\<close>

record site_hour_row =
  sh_site_id :: string
  sh_hour :: int
  sh_avg_util :: "rat option"
  sh_p95_util :: "rat option"
  sh_avg_latency :: "rat option"
  sh_users :: "rat option"

record site_day_row =
  sd_site_id :: string
  sd_date :: int
  sd_avg_util :: "rat option"
  sd_peak_util :: "rat option"
  sd_avg_latency :: "rat option"
  sd_users :: "rat option"

record busy_hour_row =
  bh_site_id :: string
  bh_hour :: int
  bh_hour_avg_util :: "rat option"

record congested_row =
  cc_timestamp :: "int option"
  cc_region :: "string option"
  cc_city :: "string option"
  cc_site_id :: "string option"
  cc_cell_id :: "string option"
  cc_tech :: "string option"
  cc_utilization_pct :: "rat option"
  cc_latency_ms :: "rat option"

record hour_of_day_row =
  hd_hour :: int
  hd_tech :: string
  hd_utilization_pct :: "rat option"

text \<open>\<^verbatim>\<open>site_hour\<close> (lines 10 to 15): one row for each (site_id, hour) group.\<close>

definition site_hour_group :: "usage_record list \<Rightarrow> string \<times> int \<Rightarrow> agg_error + site_hour_row" where
  "site_hour_group df k =
     (let g = group_rows site_hour_key df k in
      case p95_agg (map utilization_pct g) of
        Inl e \<Rightarrow> Inl e
      | Inr p \<Rightarrow> Inr \<lparr> sh_site_id = fst k, sh_hour = snd k,
                      sh_avg_util = mean_agg (map utilization_pct g),
                      sh_p95_util = p,
                      sh_avg_latency = mean_agg (map latency_ms g),
                      sh_users = mean_agg (map users_active g) \<rparr>)"

definition site_hour_table :: "usage_record list \<Rightarrow> agg_error + site_hour_row list" where
  "site_hour_table df = collect (map (site_hour_group df) (groupby_keys site_hour_key df))"

text \<open>\<^verbatim>\<open>site_day\<close> (lines 17 to 22): one row for each (site_id, date) group.\<close>

definition site_day_group :: "usage_record list \<Rightarrow> string \<times> int \<Rightarrow> site_day_row" where
  "site_day_group df k =
     (let g = group_rows site_day_key df k in
      \<lparr> sd_site_id = fst k, sd_date = snd k,
        sd_avg_util = mean_agg (map utilization_pct g),
        sd_peak_util = max_agg (map utilization_pct g),
        sd_avg_latency = mean_agg (map latency_ms g),
        sd_users = mean_agg (map users_active g) \<rparr>)"

definition site_day_table :: "usage_record list \<Rightarrow> site_day_row list" where
  "site_day_table df = map (site_day_group df) (groupby_keys site_day_key df)"

text \<open>
  \<^verbatim>\<open>busy_hour\<close> (lines 25 to 29). \<^verbatim>\<open>tmp\<close> is the mean utilization of each (site_id, hour)
  group. \<^verbatim>\<open>sort_values(["site_id", "hour_avg_util"], ascending=[True, False])\<close> on two
  columns is a stable lexicographic sort with missing values last; its key is written
  so that the ascending order of the key is that order: \<open>desc_key\<close> reverses the order of
  the values and puts the missing value after all of them.
  \<^verbatim>\<open>groupby("site_id").head(1)\<close> keeps, in their order, the rows that are the first of
  their site.
\<close>

definition hour_avg_row :: "usage_record list \<Rightarrow> string \<times> int \<Rightarrow> busy_hour_row" where
  "hour_avg_row df k =
     \<lparr> bh_site_id = fst k, bh_hour = snd k,
       bh_hour_avg_util = mean_agg (map utilization_pct (group_rows site_hour_key df k)) \<rparr>"

definition hour_avg_table :: "usage_record list \<Rightarrow> busy_hour_row list" where
  "hour_avg_table df = map (hour_avg_row df) (groupby_keys site_hour_key df)"

definition desc_key :: "rat option \<Rightarrow> nat \<times> rat" where
  "desc_key v = (case v of None \<Rightarrow> (1, 0) | Some x \<Rightarrow> (0, - x))"

fun head1_acc :: "('r \<Rightarrow> 'k) \<Rightarrow> 'k list \<Rightarrow> 'r list \<Rightarrow> 'r list" where
  "head1_acc key seen [] = []"
| "head1_acc key seen (x # xs) =
     (if key x \<in> set seen then head1_acc key seen xs
      else x # head1_acc key (key x # seen) xs)"

definition groupby_head1 :: "('r \<Rightarrow> 'k) \<Rightarrow> 'r list \<Rightarrow> 'r list" where
  "groupby_head1 key xs = head1_acc key [] xs"

definition busy_hour_table :: "usage_record list \<Rightarrow> busy_hour_row list" where
  "busy_hour_table df =
     groupby_head1 bh_site_id
       (sort_key (\<lambda>t. (bh_site_id t, desc_key (bh_hour_avg_util t))) (hour_avg_table df))"

text \<open>
  \<^verbatim>\<open>congested_cells\<close> (lines 31 to 33): the rows with \<^verbatim>\<open>utilization_pct >= 80\<close> (false on
  a missing cell), sorted descending on both columns by the same stable sort, then
  projected to eight columns.
\<close>

definition num_ge :: "rat option \<Rightarrow> rat \<Rightarrow> bool" where
  "num_ge v c = (case v of None \<Rightarrow> False | Some x \<Rightarrow> c \<le> x)"

definition congested_columns :: "usage_record \<Rightarrow> congested_row" where
  "congested_columns r =
     \<lparr> cc_timestamp = timestamp r, cc_region = region r, cc_city = city r,
       cc_site_id = site_id r, cc_cell_id = cell_id r, cc_tech = tech r,
       cc_utilization_pct = utilization_pct r, cc_latency_ms = latency_ms r \<rparr>"

definition congested_cells_table :: "usage_record list \<Rightarrow> congested_row list" where
  "congested_cells_table df =
     map congested_columns
       (sort_key (\<lambda>r. (desc_key (utilization_pct r), desc_key (latency_ms r)))
          (filter (\<lambda>r. num_ge (utilization_pct r) 80) df))"

text \<open>\<^verbatim>\<open>hour_of_day\<close> (line 35): the mean utilization of each (hour, tech) group.\<close>

definition hour_of_day_row_of :: "usage_record list \<Rightarrow> int \<times> string \<Rightarrow> hour_of_day_row" where
  "hour_of_day_row_of df k =
     \<lparr> hd_hour = fst k, hd_tech = snd k,
       hd_utilization_pct = mean_agg (map utilization_pct (group_rows hour_tech_key df k)) \<rparr>"

definition hour_of_day_table :: "usage_record list \<Rightarrow> hour_of_day_row list" where
  "hour_of_day_table df = map (hour_of_day_row_of df) (groupby_keys hour_tech_key df)"

text \<open>The dictionary that \<^verbatim>\<open>compute_aggregations\<close> returns.\<close>

record aggregations =
  site_hour :: "site_hour_row list"
  site_day :: "site_day_row list"
  busy_hour :: "busy_hour_row list"
  congested_cells :: "congested_row list"
  hour_of_day :: "hour_of_day_row list"

definition compute_aggregations :: "usage_record list \<Rightarrow> agg_error + aggregations" where
  "compute_aggregations df =
     (case site_hour_table df of
        Inl e \<Rightarrow> Inl e
      | Inr sh \<Rightarrow>
          Inr \<lparr> site_hour = sh,
                site_day = site_day_table df,
                busy_hour = busy_hour_table df,
                congested_cells = congested_cells_table df,
                hour_of_day = hour_of_day_table df \<rparr>)"

text \<open>
  The row of a (site_id, hour) group when the percentile does not raise: \<open>p95_util\<close> is
  the percentile of the non-missing cells, and missing when there are none.
\<close>

definition site_hour_row_of :: "usage_record list \<Rightarrow> string \<times> int \<Rightarrow> site_hour_row" where
  "site_hour_row_of df k =
     (let g = group_rows site_hour_key df k in
      \<lparr> sh_site_id = fst k, sh_hour = snd k,
        sh_avg_util = mean_agg (map utilization_pct g),
        sh_p95_util = (case np_percentile (dropna (map utilization_pct g)) 95 of
                         Inl e \<Rightarrow> None | Inr v \<Rightarrow> Some v),
        sh_avg_latency = mean_agg (map latency_ms g),
        sh_users = mean_agg (map users_active g) \<rparr>)"

text \<open>
  The notions the specification uses to describe the tables: the rows of a (site_id,
  hour) and of a (site_id, date) group, and the mean and the maximum of a list of
  values, undefined (missing) on the empty list.
\<close>

definition site_hour_rows :: "usage_record list \<Rightarrow> string \<Rightarrow> int \<Rightarrow> usage_record list" where
  "site_hour_rows df s h = filter (\<lambda>r. site_id r = Some s \<and> row_hour r = Some h) df"

definition site_day_rows :: "usage_record list \<Rightarrow> string \<Rightarrow> int \<Rightarrow> usage_record list" where
  "site_day_rows df s d = filter (\<lambda>r. site_id r = Some s \<and> row_date r = Some d) df"

definition spec_mean :: "rat list \<Rightarrow> rat option" where
  "spec_mean vs = (if vs = [] then None else Some (sum_list vs / of_nat (length vs)))"

definition spec_max :: "rat list \<Rightarrow> rat option" where
  "spec_max vs = (if vs = [] then None else Some (Max (set vs)))"

definition site_hours :: "usage_record list \<Rightarrow> string \<Rightarrow> int set" where
  "site_hours df s = {h. \<exists>r\<in>set df. site_id r = Some s \<and> row_hour r = Some h}"

definition hour_mean :: "usage_record list \<Rightarrow> string \<Rightarrow> int \<Rightarrow> rat option" where
  "hour_mean df s h = spec_mean (dropna (map utilization_pct (site_hour_rows df s h)))"

subsection \<open>Rows used in the examples\<close>

text \<open>A row with every cell missing, from which the examples set the cells they need.\<close>

definition empty_row :: usage_record where
  "empty_row = \<lparr> timestamp = None, region = None, city = None, site_id = None,
     cell_id = None, tech = None, capacity_mbps = None, throughput_mbps = None,
     utilization_pct = None, latency_ms = None, packet_loss_pct = None,
     users_active = None \<rparr>"

text \<open>Day 20089 is 2025-01-01; the row below is stamped 2025-01-01T23:59:59.5.\<close>

definition last_half_second_row :: usage_record where
  "last_half_second_row =
     empty_row \<lparr> timestamp := Some (20089 * NS_PER_DAY + 86399 * NS_PER_SEC + 500000000) \<rparr>"

text \<open>
  A row of 2025-01-01T00:00:00 without a tech: kept when no tech is selected, dropped
  when the selection is \<open>5G\<close>.
\<close>

definition no_tech_row :: usage_record where
  "no_tech_row = empty_row \<lparr> timestamp := Some (20089 * NS_PER_DAY) \<rparr>"

text \<open>
  Rows of site \<open>S1\<close> on 2025-01-01 at a given hour with a given utilization, and the
  table of the specification's example: utilization 40 and 60 at hour 10, 90 at hour 11.
\<close>

definition s1_row :: "int \<Rightarrow> rat option \<Rightarrow> usage_record" where
  "s1_row h u = empty_row \<lparr> timestamp := Some (20089 * NS_PER_DAY + h * NS_PER_HOUR),
     site_id := Some ''S1'', utilization_pct := u \<rparr>"

definition spec_example :: "usage_record list" where
  "spec_example = [s1_row 10 (Some 40), s1_row 10 (Some 60), s1_row 11 (Some 90)]"

text \<open>A row of 2025-01-01T00:00:00 whose site is missing.\<close>

definition no_site_row :: usage_record where
  "no_site_row = empty_row \<lparr> timestamp := Some (20089 * NS_PER_DAY), utilization_pct := Some 70 \<rparr>"

text \<open>A table with missing utilizations: all of hour 10, and one of the two rows of hour 11.\<close>

definition missing_example :: "usage_record list" where
  "missing_example = [s1_row 10 None, s1_row 11 (Some 10), s1_row 11 None]"

text \<open>
  Stand-ins for the two parsers of the library in the examples: a \<open>to_datetime\<close> that
  knows the one string \<open>2025-01-01 00:00:00\<close>, and a \<open>to_numeric\<close> that keeps the
  numbers and gives a missing value for every other cell.
\<close>

definition example_to_datetime :: "cell list \<Rightarrow> int option list" where
  "example_to_datetime col =
     map (\<lambda>c. if c = Str ''2025-01-01 00:00:00'' then Some (20089 * NS_PER_DAY) else None) col"

definition example_to_numeric :: "cell list \<Rightarrow> rat option list" where
  "example_to_numeric col = map cell_num col"

text \<open>
  A raw table of one row, given the name of its timestamp column and its timestamp,
  capacity, throughput and utilization cells; and the same table with the header
  \<open>time\<close> for the timestamp and without the column \<open>cell_id\<close>.
\<close>

definition raw_example :: "string \<Rightarrow> cell \<Rightarrow> cell \<Rightarrow> cell \<Rightarrow> cell \<Rightarrow> dataframe" where
  "raw_example ts_name ts cap thr util =
     [(ts_name, [ts]), (''region'', [Str ''North'']), (''city'', [Str ''Pune'']),
      (''site_id'', [Str ''S1'']), (''cell_id'', [Str ''C1'']), (''tech'', [Str ''5G'']),
      (''capacity_mbps'', [cap]), (''throughput_mbps'', [thr]), (''utilization_pct'', [util]),
      (''latency_ms'', [Number 20]), (''packet_loss_pct'', [Number 0]),
      (''users_active'', [Number 10])]"

definition no_cell_id_example :: dataframe where
  "no_cell_id_example =
     filter (\<lambda>(n, v). n \<noteq> ''cell_id'')
       (raw_example ''time'' (Str ''2025-01-01 00:00:00'') (Number 100) (Number 50) Null)"

text \<open>
  Two further raw tables: one of two rows, the first with a timestamp that parses and a
  missing utilization, the second with the timestamp \<open>N/A\<close> and the utilization 120; and
  one whose only timestamp is \<open>N/A\<close>.
\<close>

definition two_row_example :: dataframe where
  "two_row_example =
     map (\<lambda>((n, v), (n', w)). (n, v @ w))
       (zip (raw_example ''timestamp'' (Str ''2025-01-01 00:00:00'') (Number 100) (Number 50) Null)
            (raw_example ''timestamp'' (Str ''N/A'') (Number 100) (Number 120) (Number 120)))"

definition not_available_example :: dataframe where
  "not_available_example = raw_example ''timestamp'' (Str ''N/A'') (Number 100) (Number 50) Null"

text \<open>
  A table for \<open>congested_cells\<close>: utilizations 90, 95, 70, 90 and a missing one, with
  latencies 5, missing, 9, 7 and 8.
\<close>

definition congested_example :: "usage_record list" where
  "congested_example =
     [s1_row 10 (Some 90) \<lparr> latency_ms := Some 5 \<rparr>,
      s1_row 11 (Some 95),
      s1_row 12 (Some 70) \<lparr> latency_ms := Some 9 \<rparr>,
      s1_row 13 (Some 90) \<lparr> latency_ms := Some 7 \<rparr>,
      s1_row 14 None \<lparr> latency_ms := Some 8 \<rparr>]"

section \<open>Properties of the validator\<close>


lemma get_column_set_column:
  "get_column (set_column df c v) c' = (if c' = c then Some v else get_column df c')"
  by (simp add: get_column_def set_column_def update_conv')

lemma columns_set_column:
  "set (df_columns (set_column df c v)) = insert c (set (df_columns df))"
  by (simp add: df_columns_def set_column_def dom_update)

lemma get_column_None_iff: "get_column df c = None \<longleftrightarrow> c \<notin> set (df_columns df)"
  by (simp add: get_column_def df_columns_def map_of_eq_None_iff)

lemma columns_rename_column:
  "df_columns (rename_column a c df) = map (\<lambda>n. if n = a then c else n) (df_columns df)"
  by (induction df) (auto simp add: df_columns_def rename_column_def)

lemma columns_rename_first:
  "df_columns (rename_first c alts df) =
     (case find (\<lambda>a. a \<in> set (df_columns df)) alts of
        None \<Rightarrow> df_columns df
      | Some a \<Rightarrow> map (\<lambda>n. if n = a then c else n) (df_columns df))"
  by (induction alts) (simp_all add: columns_rename_column)

lemma columns_apply_aliases:
  "df_columns (apply_aliases df) =
     (if ''timestamp'' \<in> set (df_columns df) then df_columns df
      else (case find (\<lambda>a. a \<in> set (df_columns df))
                   [''time'', ''datetime'', ''event_time'', ''date_time''] of
              None \<Rightarrow> df_columns df
            | Some a \<Rightarrow> map (\<lambda>n. if n = a then ''timestamp'' else n) (df_columns df)))"
proof (cases "''timestamp'' \<in> set (df_columns df)")
  case True
  then show ?thesis
    by (simp add: apply_aliases_def)
next
  case False
  then have "df_columns (apply_aliases df) =
     (case find (\<lambda>a. a \<in> set (df_columns df)) timestamp_alts of
        None \<Rightarrow> df_columns df
      | Some a \<Rightarrow> map (\<lambda>n. if n = a then ''timestamp'' else n) (df_columns df))"
    by (simp add: apply_aliases_def columns_rename_first del: rename_first.simps)
  with False show ?thesis
    by (simp add: timestamp_alts_def)
qed

lemma coerce_numeric_error:
  "coerce_numeric f cs df = Inl e \<Longrightarrow> \<exists>c. e = KeyError c"
  by (induction cs arbitrary: df) (auto split: option.splits)

lemma backfill_utilization_error:
  "backfill_utilization df = Inl e \<Longrightarrow> \<exists>c. e = KeyError c"
  by (auto simp add: backfill_utilization_def Let_def split: if_splits option.splits)

lemma read_network_csv_missing:
  assumes "required_cols - set (df_columns (apply_aliases df)) \<noteq> {}"
  shows "read_network_csv to_datetime to_numeric required_cols df =
           Inl (SchemaError
                  (sorted_list_of_set (required_cols - set (df_columns (apply_aliases df))))
                  (sorted_list_of_set required_cols))"
  using assms by (simp add: read_network_csv_def Let_def)

lemma read_network_csv_complete:
  assumes "required_cols - set (df_columns (apply_aliases df)) = {}"
  shows "read_network_csv to_datetime to_numeric required_cols df =
     (case get_column (apply_aliases df) ''timestamp'' of
        None \<Rightarrow> Inl (KeyError ''timestamp'')
      | Some raw \<Rightarrow>
          if list_all (\<lambda>t. t = None) (to_datetime raw) then Inl TimestampError
          else
            (case coerce_numeric to_numeric numeric_cols
                    (set_column (apply_aliases df) ''timestamp''
                       (map time_cell (to_datetime raw))) of
               Inl e \<Rightarrow> Inl e
             | Inr df' \<Rightarrow> backfill_utilization df'))"
  using assms by (simp add: read_network_csv_def Let_def split: option.splits)

lemma read_network_csv_complete_error:
  assumes "required_cols - set (df_columns (apply_aliases df)) = {}"
    and "read_network_csv to_datetime to_numeric required_cols df = Inl e"
  shows "e = TimestampError \<or> (\<exists>c. e = KeyError c)"
  using assms(2) unfolding read_network_csv_complete [OF assms(1)]
  by (auto split: option.splits if_splits sum.splits
      dest: coerce_numeric_error backfill_utilization_error)

text \<open>
  C6. \<open>read_network_csv\<close> fails with the schema error if and only if a required field
  is not a column after alias resolution; the error carries the missing fields and the
  whole required set, each as a sorted list without repetition. Alias resolution leaves
  the columns as they are when \<open>timestamp\<close> is one of them, and otherwise renames to
  \<open>timestamp\<close> the first of \<open>time\<close>, \<open>datetime\<close>, \<open>event_time\<close>, \<open>date_time\<close> that is a
  column.
\<close>

theorem schema_error_spec:
  assumes "finite required_cols"
  shows "((\<exists>m e. read_network_csv to_datetime to_numeric required_cols df = Inl (SchemaError m e))
            \<longleftrightarrow> (\<exists>c. c \<in> required_cols \<and> c \<notin> set (df_columns (apply_aliases df))))
       \<and> (\<forall>m e. read_network_csv to_datetime to_numeric required_cols df = Inl (SchemaError m e)
            \<longrightarrow> sorted m \<and> distinct m
                \<and> set m = required_cols - set (df_columns (apply_aliases df))
                \<and> sorted e \<and> distinct e \<and> set e = required_cols)
       \<and> df_columns (apply_aliases df) =
           (if ''timestamp'' \<in> set (df_columns df) then df_columns df
            else (case find (\<lambda>a. a \<in> set (df_columns df))
                         [''time'', ''datetime'', ''event_time'', ''date_time''] of
                    None \<Rightarrow> df_columns df
                  | Some a \<Rightarrow> map (\<lambda>n. if n = a then ''timestamp'' else n) (df_columns df)))"
proof (cases "required_cols - set (df_columns (apply_aliases df)) = {}")
  case True
  then have "\<not> (\<exists>c. c \<in> required_cols \<and> c \<notin> set (df_columns (apply_aliases df)))"
    by blast
  moreover have "\<not> (\<exists>m e. read_network_csv to_datetime to_numeric required_cols df
                           = Inl (SchemaError m e))"
    using read_network_csv_complete_error [OF True] by fastforce
  ultimately show ?thesis
    using columns_apply_aliases [of df] by blast
next
  case False
  then have "\<exists>c. c \<in> required_cols \<and> c \<notin> set (df_columns (apply_aliases df))"
    by blast
  moreover have "finite (required_cols - set (df_columns (apply_aliases df)))"
    using assms by simp
  ultimately show ?thesis
    using columns_apply_aliases [of df] assms
    by (simp add: read_network_csv_missing [OF False])
qed

lemma get_column_Some_iff: "(\<exists>col. get_column df c = Some col) \<longleftrightarrow> c \<in> set (df_columns df)"
  using get_column_None_iff [of df c] by auto

lemma coerce_numeric_ok:
  assumes "set cs \<subseteq> set (df_columns df)" and "distinct cs"
  shows "\<exists>df'. coerce_numeric f cs df = Inr df'
           \<and> set (df_columns df') = set (df_columns df)
           \<and> (\<forall>c. c \<notin> set cs \<longrightarrow> get_column df' c = get_column df c)
           \<and> (\<forall>c\<in>set cs. get_column df' c
                 = map_option (\<lambda>col. map num_cell (f col)) (get_column df c))"
  using assms
proof (induction cs arbitrary: df)
  case Nil
  then show ?case by simp
next
  case (Cons c cs)
  from Cons.prems obtain col where col: "get_column df c = Some col"
    using get_column_Some_iff [of df c] by auto
  let ?df1 = "set_column df c (map num_cell (f col))"
  have cols1: "set (df_columns ?df1) = set (df_columns df)"
    using Cons.prems by (auto simp add: columns_set_column)
  with Cons.prems have "set cs \<subseteq> set (df_columns ?df1)" and "distinct cs"
    by simp_all
  from Cons.IH [OF this] obtain df'
    where r: "coerce_numeric f cs ?df1 = Inr df'"
      and k: "set (df_columns df') = set (df_columns ?df1)"
      and o: "\<forall>c'. c' \<notin> set cs \<longrightarrow> get_column df' c' = get_column ?df1 c'"
      and n: "\<forall>c'\<in>set cs. get_column df' c'
                 = map_option (\<lambda>col. map num_cell (f col)) (get_column ?df1 c')"
    by blast
  have "coerce_numeric f (c # cs) df = Inr df'"
    using col r by simp
  moreover have "set (df_columns df') = set (df_columns df)"
    using k cols1 by simp
  moreover have "\<forall>c'. c' \<notin> set (c # cs) \<longrightarrow> get_column df' c' = get_column df c'"
    using o by (simp add: get_column_set_column)
  moreover have "\<forall>c'\<in>set (c # cs). get_column df' c'
                 = map_option (\<lambda>col. map num_cell (f col)) (get_column df c')"
  proof
    fix c'
    assume c': "c' \<in> set (c # cs)"
    show "get_column df' c' = map_option (\<lambda>col. map num_cell (f col)) (get_column df c')"
    proof (cases "c' = c")
      case True
      with Cons.prems have "c' \<notin> set cs" by simp
      with o True col show ?thesis
        by (simp add: get_column_set_column)
    next
      case False
      with c' have "c' \<in> set cs" by simp
      with n False show ?thesis
        by (simp add: get_column_set_column)
    qed
  qed
  ultimately show ?case by blast
qed

lemma cell_num_num_cell: "cell_num (num_cell v) = v"
  by (cases v) (simp_all add: cell_num_def num_cell_def)

lemma list_ex_need: "list_ex (\<lambda>b. b) (map (\<lambda>c. cell_num c = None) col) \<longleftrightarrow> (\<exists>c\<in>set col. cell_num c = None)"
  by (induction col) simp_all

lemma backfill_utilization_rows:
  assumes U: "get_column df ''utilization_pct'' = Some U"
    and T: "get_column df ''throughput_mbps'' = Some T"
    and C: "get_column df ''capacity_mbps'' = Some C"
    and lT: "length T = length U" and lC: "length C = length U"
  shows "\<exists>out U'. backfill_utilization df = Inr out
            \<and> get_column out ''utilization_pct'' = Some U'
            \<and> (\<forall>c. c \<noteq> ''utilization_pct'' \<longrightarrow> get_column out c = get_column df c)
            \<and> length U' = length U
            \<and> (\<forall>i<length U. cell_num (U' ! i)
                  = backfilled (cell_num (U ! i)) (cell_num (T ! i)) (cell_num (C ! i)))"
proof (cases "\<exists>c\<in>set U. cell_num c = None")
  case False
  have "''utilization_pct'' \<in> set (df_columns df)"
    using U get_column_Some_iff [of df "''utilization_pct''"] by auto
  moreover have "\<not> list_ex (\<lambda>b. b) (map (\<lambda>c. cell_num c = None) U)"
    using False by (simp only: list_ex_need) blast
  ultimately have out: "backfill_utilization df = Inr df"
    using U by (simp add: backfill_utilization_def Let_def)
  have "\<forall>i<length U. cell_num (U ! i)
          = backfilled (cell_num (U ! i)) (cell_num (T ! i)) (cell_num (C ! i))"
  proof (intro allI impI)
    fix i
    assume "i < length U"
    then have "U ! i \<in> set U" by simp
    with False obtain v where "cell_num (U ! i) = Some v" by auto
    then show "cell_num (U ! i)
          = backfilled (cell_num (U ! i)) (cell_num (T ! i)) (cell_num (C ! i))"
      by (simp add: backfilled_def)
  qed
  with out U show ?thesis by blast
next
  case True
  let ?need = "map (\<lambda>c. cell_num c = None) U"
  let ?clipped = "map (\<lambda>x. clip x 0 100) (calc_utilization (map cell_num T) (map cell_num C))"
  let ?new = "loc_assign ?need (map cell_num U) ?clipped"
  let ?out = "set_column df ''utilization_pct'' (map num_cell ?new)"
  have "''utilization_pct'' \<in> set (df_columns df)"
    using U get_column_Some_iff [of df "''utilization_pct''"] by auto
  moreover have "list_ex (\<lambda>b. b) (map (\<lambda>c. cell_num c = None) U)"
    using True by (simp only: list_ex_need)
  ultimately have out: "backfill_utilization df = Inr ?out"
    using U T C by (simp add: backfill_utilization_def Let_def)
  have len: "length ?new = length U"
    using lT lC by (simp add: loc_assign_def calc_utilization_def)
  have "?new ! i = backfilled (cell_num (U ! i)) (cell_num (T ! i)) (cell_num (C ! i))"
    if "i < length U" for i
    using that lT lC
    by (simp add: loc_assign_def calc_utilization_def backfilled_def split: option.splits)
  then have "\<forall>i<length U. cell_num (map num_cell ?new ! i)
               = backfilled (cell_num (U ! i)) (cell_num (T ! i)) (cell_num (C ! i))"
    using len by (simp add: cell_num_num_cell)
  moreover have "get_column ?out ''utilization_pct'' = Some (map num_cell ?new)"
    by (simp add: get_column_set_column)
  moreover have "\<forall>c. c \<noteq> ''utilization_pct'' \<longrightarrow> get_column ?out c = get_column df c"
    by (simp add: get_column_set_column)
  moreover have "length (map num_cell ?new) = length U"
    using len by simp
  ultimately show ?thesis
    using out by blast
qed

lemma backfill_utilization_ok:
  assumes U: "get_column df ''utilization_pct'' = Some U"
    and T: "get_column df ''throughput_mbps'' = Some T"
    and C: "get_column df ''capacity_mbps'' = Some C"
  shows "\<exists>out. backfill_utilization df = Inr out
            \<and> (\<forall>c. c \<noteq> ''utilization_pct'' \<longrightarrow> get_column out c = get_column df c)"
  using assms
  by (auto simp add: backfill_utilization_def Let_def get_column_set_column)

lemma numeric_cols_required: "set numeric_cols \<subseteq> REQUIRED_COLS"
  by (simp add: numeric_cols_def REQUIRED_COLS_def)

lemma distinct_numeric_cols: "distinct numeric_cols"
  by (simp add: numeric_cols_def)

lemma read_network_csv_coerced:
  assumes pass: "required_cols \<subseteq> set (df_columns (apply_aliases df))"
    and req: "REQUIRED_COLS \<subseteq> required_cols"
  shows "\<exists>raw df'. get_column (apply_aliases df) ''timestamp'' = Some raw
           \<and> coerce_numeric to_numeric numeric_cols
                (set_column (apply_aliases df) ''timestamp'' (map time_cell (to_datetime raw)))
               = Inr df'
           \<and> get_column df' ''timestamp'' = Some (map time_cell (to_datetime raw))
           \<and> (\<forall>c\<in>set numeric_cols. \<exists>col. get_column (apply_aliases df) c = Some col
                  \<and> get_column df' c = Some (map num_cell (to_numeric col)))"
proof -
  let ?df = "apply_aliases df"
  have all: "REQUIRED_COLS \<subseteq> set (df_columns ?df)"
    using pass req by blast
  then have "''timestamp'' \<in> set (df_columns ?df)"
    by (auto simp add: REQUIRED_COLS_def)
  then obtain raw where raw: "get_column ?df ''timestamp'' = Some raw"
    using get_column_Some_iff [of ?df "''timestamp''"] by blast
  let ?df1 = "set_column ?df ''timestamp'' (map time_cell (to_datetime raw))"
  have "set numeric_cols \<subseteq> set (df_columns ?df1)"
    using all numeric_cols_required by (auto simp add: columns_set_column)
  from coerce_numeric_ok [OF this distinct_numeric_cols, of to_numeric] obtain df'
    where r: "coerce_numeric to_numeric numeric_cols ?df1 = Inr df'"
      and o: "\<forall>c. c \<notin> set numeric_cols \<longrightarrow> get_column df' c = get_column ?df1 c"
      and n: "\<forall>c\<in>set numeric_cols. get_column df' c
                 = map_option (\<lambda>col. map num_cell (to_numeric col)) (get_column ?df1 c)"
    by blast
  have "''timestamp'' \<notin> set numeric_cols"
    by (simp add: numeric_cols_def)
  with o have t: "get_column df' ''timestamp'' = Some (map time_cell (to_datetime raw))"
    by (simp add: get_column_set_column)
  have "\<exists>col. get_column ?df c = Some col
          \<and> get_column df' c = Some (map num_cell (to_numeric col))"
    if c: "c \<in> set numeric_cols" for c
  proof -
    from c all numeric_cols_required have "c \<in> set (df_columns ?df)"
      by blast
    then obtain col where col: "get_column ?df c = Some col"
      using get_column_Some_iff [of ?df c] by blast
    from c have "c \<noteq> ''timestamp''"
      by (auto simp add: numeric_cols_def)
    with n c col show ?thesis
      by (simp add: get_column_set_column)
  qed
  with raw r t show ?thesis by blast
qed

text \<open>
  C7. For a table that passes the schema check (\<open>timestamp\<close> being a required field),
  \<open>read_network_csv\<close> fails with the timestamp error if and only if no row has a
  timestamp that parses. When one parses and the required fields include the twelve
  columns, the call returns a table whose timestamp column is the parsed one, missing
  where the value did not parse.
\<close>

theorem timestamp_error_spec:
  assumes "required_cols \<subseteq> set (df_columns (apply_aliases df))"
    and "''timestamp'' \<in> required_cols"
  shows "\<exists>raw. get_column (apply_aliases df) ''timestamp'' = Some raw
     \<and> (read_network_csv to_datetime to_numeric required_cols df = Inl TimestampError
          \<longleftrightarrow> (\<forall>t\<in>set (to_datetime raw). t = None))
     \<and> ((\<exists>t\<in>set (to_datetime raw). t \<noteq> None) \<and> REQUIRED_COLS \<subseteq> required_cols
          \<longrightarrow> (\<exists>out. read_network_csv to_datetime to_numeric required_cols df = Inr out
                \<and> get_column out ''timestamp'' = Some (map time_cell (to_datetime raw))))"
proof -
  let ?df = "apply_aliases df"
  from assms have "''timestamp'' \<in> set (df_columns ?df)"
    by blast
  then obtain raw where raw: "get_column ?df ''timestamp'' = Some raw"
    using get_column_Some_iff [of ?df "''timestamp''"] by blast
  have complete: "required_cols - set (df_columns ?df) = {}"
    using assms(1) by blast
  note eq = read_network_csv_complete [OF complete, of to_datetime to_numeric]
  have iff: "read_network_csv to_datetime to_numeric required_cols df = Inl TimestampError
          \<longleftrightarrow> (\<forall>t\<in>set (to_datetime raw). t = None)"
    unfolding eq using raw
    by (auto simp add: list_all_iff split: sum.splits
        dest: coerce_numeric_error backfill_utilization_error)
  have ok: "\<exists>out. read_network_csv to_datetime to_numeric required_cols df = Inr out
                \<and> get_column out ''timestamp'' = Some (map time_cell (to_datetime raw))"
    if valid: "\<exists>t\<in>set (to_datetime raw). t \<noteq> None" and req: "REQUIRED_COLS \<subseteq> required_cols"
  proof -
    from read_network_csv_coerced [OF assms(1) req, of to_numeric to_datetime] raw
    obtain df' where r: "coerce_numeric to_numeric numeric_cols
                (set_column ?df ''timestamp'' (map time_cell (to_datetime raw))) = Inr df'"
      and t: "get_column df' ''timestamp'' = Some (map time_cell (to_datetime raw))"
      and n: "\<forall>c\<in>set numeric_cols. \<exists>col. get_column ?df c = Some col
                  \<and> get_column df' c = Some (map num_cell (to_numeric col))"
      by auto
    from n obtain U T C where "get_column df' ''utilization_pct'' = Some U"
      and "get_column df' ''throughput_mbps'' = Some T"
      and "get_column df' ''capacity_mbps'' = Some C"
      by (auto simp add: numeric_cols_def)
    from backfill_utilization_ok [OF this] obtain out
      where b: "backfill_utilization df' = Inr out"
        and k: "\<forall>c. c \<noteq> ''utilization_pct'' \<longrightarrow> get_column out c = get_column df' c"
      by blast
    from valid have "\<not> list_all (\<lambda>t. t = None) (to_datetime raw)"
      by (simp add: list_all_iff)
    with raw r b have "read_network_csv to_datetime to_numeric required_cols df = Inr out"
      unfolding eq by simp
    moreover from k t have "get_column out ''timestamp'' = Some (map time_cell (to_datetime raw))"
      by simp
    ultimately show ?thesis by blast
  qed
  from raw iff ok show ?thesis by blast
qed

text \<open>
  A column of \<open>N/A\<close> gives the timestamp error; with one timestamp that parses, the
  call returns and the other timestamp is missing.
\<close>

theorem timestamp_error_spec_witness:
  "REQUIRED_COLS \<subseteq> set (df_columns (apply_aliases not_available_example))
   \<and> ''timestamp'' \<in> REQUIRED_COLS
   \<and> get_column (apply_aliases not_available_example) ''timestamp'' = Some [Str ''N/A'']
   \<and> example_to_datetime [Str ''N/A''] = [None]
   \<and> read_network_csv example_to_datetime example_to_numeric REQUIRED_COLS not_available_example
       = Inl TimestampError
   \<and> REQUIRED_COLS \<subseteq> set (df_columns (apply_aliases two_row_example))
   \<and> get_column (apply_aliases two_row_example) ''timestamp''
       = Some [Str ''2025-01-01 00:00:00'', Str ''N/A'']
   \<and> example_to_datetime [Str ''2025-01-01 00:00:00'', Str ''N/A'']
       = [Some 1735689600000000000, None]
   \<and> (\<exists>out. read_network_csv example_to_datetime example_to_numeric REQUIRED_COLS
               two_row_example = Inr out
          \<and> get_column out ''timestamp'' = Some [Time 1735689600000000000, Null])"
proof -
  have p1: "REQUIRED_COLS \<subseteq> set (df_columns (apply_aliases not_available_example))"
    by code_simp
  have t: "''timestamp'' \<in> REQUIRED_COLS"
    by (simp add: REQUIRED_COLS_def)
  have g1: "get_column (apply_aliases not_available_example) ''timestamp'' = Some [Str ''N/A'']"
    by code_simp
  have d1: "example_to_datetime [Str ''N/A''] = [None]"
    by (simp add: example_to_datetime_def)
  from timestamp_error_spec [OF p1 t, of example_to_datetime example_to_numeric] g1 d1
  have e1: "read_network_csv example_to_datetime example_to_numeric REQUIRED_COLS
              not_available_example = Inl TimestampError"
    by simp
  have p2: "REQUIRED_COLS \<subseteq> set (df_columns (apply_aliases two_row_example))"
    by code_simp
  have g2: "get_column (apply_aliases two_row_example) ''timestamp''
       = Some [Str ''2025-01-01 00:00:00'', Str ''N/A'']"
    by code_simp
  have d2: "example_to_datetime [Str ''2025-01-01 00:00:00'', Str ''N/A'']
       = [Some 1735689600000000000, None]"
    by (simp add: example_to_datetime_def NS_PER_DAY_def NS_PER_SEC_def)
  from timestamp_error_spec [OF p2 t, of example_to_datetime example_to_numeric] g2 d2
  have e2: "\<exists>out. read_network_csv example_to_datetime example_to_numeric REQUIRED_COLS
               two_row_example = Inr out
          \<and> get_column out ''timestamp'' = Some [Time 1735689600000000000, Null]"
    by (simp add: time_cell_def)
  from p1 t g1 d1 e1 p2 g2 d2 e2 show ?thesis
    by (intro conjI)
qed

text \<open>The utilization column that \<open>read_network_csv\<close> returns, row by row.\<close>

lemma read_network_csv_utilization:
  assumes pass: "required_cols \<subseteq> set (df_columns (apply_aliases df))"
    and req: "REQUIRED_COLS \<subseteq> required_cols"
    and raw: "get_column (apply_aliases df) ''timestamp'' = Some raw"
    and valid: "\<exists>t\<in>set (to_datetime raw). t \<noteq> None"
    and U: "get_column (apply_aliases df) ''utilization_pct'' = Some U"
    and T: "get_column (apply_aliases df) ''throughput_mbps'' = Some T"
    and C: "get_column (apply_aliases df) ''capacity_mbps'' = Some C"
    and lT: "length (to_numeric T) = length (to_numeric U)"
    and lC: "length (to_numeric C) = length (to_numeric U)"
  shows "\<exists>out U'. read_network_csv to_datetime to_numeric required_cols df = Inr out
           \<and> get_column out ''utilization_pct'' = Some U'
           \<and> length U' = length (to_numeric U)
           \<and> (\<forall>i<length (to_numeric U). cell_num (U' ! i)
                 = backfilled (to_numeric U ! i) (to_numeric T ! i) (to_numeric C ! i))"
proof -
  let ?df = "apply_aliases df"
  have complete: "required_cols - set (df_columns ?df) = {}"
    using pass by blast
  note eq = read_network_csv_complete [OF complete, of to_datetime to_numeric]
  from read_network_csv_coerced [OF pass req, of to_numeric to_datetime] raw
  obtain df' where r: "coerce_numeric to_numeric numeric_cols
                (set_column ?df ''timestamp'' (map time_cell (to_datetime raw))) = Inr df'"
    and n: "\<forall>c\<in>set numeric_cols. \<exists>col. get_column ?df c = Some col
                  \<and> get_column df' c = Some (map num_cell (to_numeric col))"
    by auto
  from n U T C have U': "get_column df' ''utilization_pct'' = Some (map num_cell (to_numeric U))"
    and T': "get_column df' ''throughput_mbps'' = Some (map num_cell (to_numeric T))"
    and C': "get_column df' ''capacity_mbps'' = Some (map num_cell (to_numeric C))"
    by (auto simp add: numeric_cols_def)
  from backfill_utilization_rows [OF U' T' C'] lT lC obtain out V
    where b: "backfill_utilization df' = Inr out"
      and v: "get_column out ''utilization_pct'' = Some V"
      and l: "length V = length (to_numeric U)"
      and rows: "\<forall>i<length (to_numeric U). cell_num (V ! i)
            = backfilled (cell_num (map num_cell (to_numeric U) ! i))
                (cell_num (map num_cell (to_numeric T) ! i))
                (cell_num (map num_cell (to_numeric C) ! i))"
    by auto
  from rows lT lC have "\<forall>i<length (to_numeric U). cell_num (V ! i)
                 = backfilled (to_numeric U ! i) (to_numeric T ! i) (to_numeric C ! i)"
    by (simp add: cell_num_num_cell)
  moreover from valid have "\<not> list_all (\<lambda>t. t = None) (to_datetime raw)"
    by (simp add: list_all_iff)
  with raw r b have "read_network_csv to_datetime to_numeric required_cols df = Inr out"
    unfolding eq by simp
  ultimately show ?thesis
    using v l by blast
qed

lemma backfilled_cases:
  "backfilled (Some v) thr cap = Some v"
  "backfilled None None cap = None"
  "backfilled None thr None = None"
  "c \<noteq> 0 \<Longrightarrow> backfilled None (Some t) (Some c) = Some (min (max (t / c * 100) 0) 100)"
  "backfilled None (Some 0) (Some 0) = None"
  "0 < t \<Longrightarrow> backfilled None (Some t) (Some 0) = Some 100"
  "t < 0 \<Longrightarrow> backfilled None (Some t) (Some 0) = Some 0"
  by (simp_all add: backfilled_def float_div_def float_mul_def clip_def split: option.splits)

text \<open>
  C2. Of the utilization column that \<open>read_network_csv\<close> returns
  (\<open>read_network_csv_utilization\<close>, \<open>backfilled_cases\<close>): a utilization that is present is
  kept as it is, also above 100; a missing one becomes the clipped ratio, and is left
  missing when the throughput or the capacity is missing. With a capacity of zero it is
  left missing only for a throughput of zero: the division gives an infinity, which the
  clip brings to a bound. Evaluated for a row with capacity 0, throughput 50 and no
  utilization: the utilization returned is 100.
\<close>

theorem zero_capacity_backfilled_to_100:
  "read_network_csv example_to_datetime example_to_numeric REQUIRED_COLS
     (raw_example ''timestamp'' (Str ''2025-01-01 00:00:00'') (Number 0) (Number 50) Null)
   = Inr (raw_example ''timestamp'' (Time 1735689600000000000) (Number 0) (Number 50) (Number 100))"
  by code_simp

text \<open>
  The specification's example (capacity 100, throughput 50, no utilization) gives 50, and
  a utilization of 250 is returned unchanged.
\<close>

lemma spec_example_backfilled_to_50:
  "read_network_csv example_to_datetime example_to_numeric REQUIRED_COLS
     (raw_example ''timestamp'' (Str ''2025-01-01 00:00:00'') (Number 100) (Number 50) Null)
   = Inr (raw_example ''timestamp'' (Time 1735689600000000000) (Number 100) (Number 50) (Number 50))"
  by code_simp

lemma implausible_utilization_kept:
  "read_network_csv example_to_datetime example_to_numeric REQUIRED_COLS
     (raw_example ''timestamp'' (Str ''2025-01-01 00:00:00'') (Number 100) (Number 50) (Number 250))
   = Inr (raw_example ''timestamp'' (Time 1735689600000000000) (Number 100) (Number 50) (Number 250))"
  by code_simp

lemma finite_REQUIRED_COLS: "finite REQUIRED_COLS"
  by (simp add: REQUIRED_COLS_def)

lemma sorted_REQUIRED_COLS:
  "sorted_list_of_set REQUIRED_COLS =
     [''capacity_mbps'', ''cell_id'', ''city'', ''latency_ms'', ''packet_loss_pct'', ''region'',
      ''site_id'', ''tech'', ''throughput_mbps'', ''timestamp'', ''users_active'',
      ''utilization_pct'']"
  by code_simp

text \<open>
  The table without \<open>cell_id\<close>: the missing list is exactly \<open>cell_id\<close>, and the header
  \<open>time\<close> has been taken for the timestamp.
\<close>

theorem schema_error_spec_witness:
  "finite REQUIRED_COLS
   \<and> read_network_csv example_to_datetime example_to_numeric REQUIRED_COLS no_cell_id_example
       = Inl (SchemaError [''cell_id'']
          [''capacity_mbps'', ''cell_id'', ''city'', ''latency_ms'', ''packet_loss_pct'',
           ''region'', ''site_id'', ''tech'', ''throughput_mbps'', ''timestamp'',
           ''users_active'', ''utilization_pct''])
   \<and> (\<exists>c. c \<in> REQUIRED_COLS \<and> c \<notin> set (df_columns (apply_aliases no_cell_id_example)))
   \<and> ''timestamp'' \<in> set (df_columns (apply_aliases no_cell_id_example))"
proof -
  have ev: "read_network_csv example_to_datetime example_to_numeric REQUIRED_COLS
              no_cell_id_example
       = Inl (SchemaError [''cell_id'']
          [''capacity_mbps'', ''cell_id'', ''city'', ''latency_ms'', ''packet_loss_pct'',
           ''region'', ''site_id'', ''tech'', ''throughput_mbps'', ''timestamp'',
           ''users_active'', ''utilization_pct''])"
    by code_simp
  have al: "''timestamp'' \<in> set (df_columns (apply_aliases no_cell_id_example))"
    by code_simp
  from schema_error_spec [OF finite_REQUIRED_COLS, of example_to_datetime example_to_numeric
      no_cell_id_example] ev
  have "\<exists>c. c \<in> REQUIRED_COLS \<and> c \<notin> set (df_columns (apply_aliases no_cell_id_example))"
    by blast
  with ev al finite_REQUIRED_COLS show ?thesis
    by blast
qed

section \<open>Properties of the filter layer\<close>

text \<open>
  C9. Filtering is idempotent: filtering the result of a filter with the same
  specification gives the same table as filtering once.
\<close>

theorem filter_idempotent:
  "apply_filters d0 d1 techs regions cities sites
     (apply_filters d0 d1 techs regions cities sites df)
   = apply_filters d0 d1 techs regions cities sites df"
  by (simp add: apply_filters_def)

text \<open>Membership in the filtered table, predicate by predicate.\<close>

lemma mask_iff:
  "mask_row d0 d1 techs regions cities sites r \<longleftrightarrow>
     ts_ge (timestamp r) (start_date d0) \<and> ts_le (timestamp r) (end_date d1)
     \<and> (techs = [] \<or> isin (tech r) techs)
     \<and> (regions = [] \<or> isin (region r) regions)
     \<and> (cities = [] \<or> isin (city r) cities)
     \<and> (sites = [] \<or> isin (site_id r) sites)"
  by (auto simp add: mask_row_def Let_def)

lemma apply_filters_unset_dims:
  "apply_filters d0 d1 [] [] [] [] df =
     filter (\<lambda>r. ts_ge (timestamp r) (start_date d0) \<and> ts_le (timestamp r) (end_date d1)) df"
proof -
  have "mask_row d0 d1 [] [] [] [] =
          (\<lambda>r. ts_ge (timestamp r) (start_date d0) \<and> ts_le (timestamp r) (end_date d1))"
    by (rule ext) (simp add: mask_iff)
  then show ?thesis
    by (simp add: apply_filters_def)
qed

text \<open>
  On timestamps that are whole seconds the two bounds select exactly the rows whose
  calendar date lies between the first and the last day of the range.
\<close>

lemma whole_second_in_range:
  assumes "NS_PER_SEC dvd t"
  shows "ts_ge (Some t) (start_date d0) \<and> ts_le (Some t) (end_date d1)
         \<longleftrightarrow> d0 \<le> dt_date t \<and> dt_date t \<le> d1"
proof -
  obtain k where k: "t = 1000000000 * k"
    using assms by (auto simp add: dvd_def NS_PER_SEC_def)
  have lo: "d0 * 86400000000000 \<le> t \<longleftrightarrow> d0 \<le> t div 86400000000000"
    by linarith
  have "(1000000000 * k) div (1000000000 * 86400) = k div (86400::int)"
    by (rule div_mult_mult1) simp
  then have e: "(1000000000 * k) div 86400000000000 = k div (86400::int)"
    by simp
  have hi: "1000000000 * k \<le> d1 * 86400000000000 + 86400000000000 - 1000000000
            \<longleftrightarrow> (1000000000 * k) div 86400000000000 \<le> d1"
    unfolding e by linarith
  show ?thesis
    using lo hi
    by (simp add: ts_ge_def ts_le_def start_date_def end_date_def dt_date_def
        NS_PER_DAY_def NS_PER_SEC_def k)
qed

text \<open>
  C5. The filter returns the rows satisfying every active predicate (\<open>mask_iff\<close>), and on
  whole-second timestamps the date range covers every row of its last calendar day
  (\<open>whole_second_in_range\<close>). A row stamped within the last second of the last day, after
  23:59:59.0, is nevertheless dropped: the upper bound is one second, not one time
  unit, before the next midnight. Evaluated for the range (2025-01-01, 2025-01-01) and a
  row stamped 23:59:59.5 on that day.
\<close>

theorem last_second_of_range_dropped:
  "map_option dt_date (timestamp last_half_second_row) = Some 20089
   \<and> apply_filters 20089 20089 [] [] [] [] [last_half_second_row] = []"
  by (simp add: apply_filters_def mask_iff last_half_second_row_def empty_row_def
      ts_ge_def ts_le_def start_date_def end_date_def dt_date_def NS_PER_DAY_def
      NS_PER_SEC_def)

text \<open>
  C10. For each categorical dimension (tech, region, city, site): with a non-empty
  selection for the dimension, a row whose cell in that dimension is missing is not in
  the result; with no selection for the dimension the mask does not read the cell, so
  the same row passes whenever the other predicates hold.
\<close>

theorem null_cell_excluded_by_selection:
  "(techs \<noteq> [] \<and> tech r = None \<longrightarrow>
      r \<notin> set (apply_filters d0 d1 techs regions cities sites df))
   \<and> (regions \<noteq> [] \<and> region r = None \<longrightarrow>
      r \<notin> set (apply_filters d0 d1 techs regions cities sites df))
   \<and> (cities \<noteq> [] \<and> city r = None \<longrightarrow>
      r \<notin> set (apply_filters d0 d1 techs regions cities sites df))
   \<and> (sites \<noteq> [] \<and> site_id r = None \<longrightarrow>
      r \<notin> set (apply_filters d0 d1 techs regions cities sites df))
   \<and> mask_row d0 d1 [] regions cities sites (r\<lparr>tech := None\<rparr>)
       = mask_row d0 d1 [] regions cities sites (r\<lparr>tech := v\<rparr>)
   \<and> mask_row d0 d1 techs [] cities sites (r\<lparr>region := None\<rparr>)
       = mask_row d0 d1 techs [] cities sites (r\<lparr>region := v\<rparr>)
   \<and> mask_row d0 d1 techs regions [] sites (r\<lparr>city := None\<rparr>)
       = mask_row d0 d1 techs regions [] sites (r\<lparr>city := v\<rparr>)
   \<and> mask_row d0 d1 techs regions cities [] (r\<lparr>site_id := None\<rparr>)
       = mask_row d0 d1 techs regions cities [] (r\<lparr>site_id := v\<rparr>)"
  by (simp add: apply_filters_def mask_iff isin_def)

theorem null_cell_excluded_by_selection_witness:
  "[''5G''] \<noteq> [] \<and> tech no_tech_row = None
   \<and> no_tech_row \<notin> set (apply_filters 20089 20089 [''5G''] [] [] [] [no_tech_row])
   \<and> apply_filters 20089 20089 [] [] [] [] [no_tech_row] = [no_tech_row]"
proof -
  have t: "tech no_tech_row = None"
    by (simp add: no_tech_row_def empty_row_def)
  have kept: "apply_filters 20089 20089 [] [] [] [] [no_tech_row] = [no_tech_row]"
    by (simp add: apply_filters_def mask_iff no_tech_row_def empty_row_def
        ts_ge_def ts_le_def start_date_def end_date_def NS_PER_DAY_def NS_PER_SEC_def)
  from null_cell_excluded_by_selection
    [of "[''5G'']" no_tech_row 20089 20089 "[]" "[]" "[]" "[no_tech_row]"] t kept
  show ?thesis by simp
qed

section \<open>Properties of the aggregation engine\<close>


lemma notna_any_dropna: "notna_any xs \<longleftrightarrow> dropna xs \<noteq> []"
  by (induction xs rule: dropna.induct) (simp_all add: notna_any_def)

lemma dropna_empty_iff: "dropna xs = [] \<longleftrightarrow> (\<forall>x\<in>set xs. x = None)"
  by (induction xs rule: dropna.induct) simp_all

lemma p95_agg_total:
  "p95_agg s = Inr (case np_percentile (dropna s) 95 of Inl e \<Rightarrow> None | Inr v \<Rightarrow> Some v)"
  by (auto simp add: p95_agg_def notna_any_dropna np_percentile_def Let_def)

lemma collect_Inr: "collect (map (\<lambda>k. Inr (f k)) ks) = Inr (map f ks)"
  by (induction ks) simp_all

lemma set_present_keys: "set (present_keys key df) = {k. \<exists>r\<in>set df. key r = Some k}"
  by (induction df) (auto split: option.splits)

lemma set_groupby_keys: "set (groupby_keys key df) = {k. \<exists>r\<in>set df. key r = Some k}"
  by (simp add: groupby_keys_def set_present_keys)

lemma distinct_groupby_keys: "distinct (groupby_keys key df)"
  by (simp add: groupby_keys_def)

lemma sorted_groupby_keys: "sorted (groupby_keys key df)"
  by (simp add: groupby_keys_def)

lemma length_groupby_keys:
  "length (groupby_keys key df) = card {k. \<exists>r\<in>set df. key r = Some k}"
  using distinct_card [OF distinct_groupby_keys, of key df]
  by (simp add: set_groupby_keys)

lemma two_keys_Some_iff: "two_keys a b = Some (x, y) \<longleftrightarrow> a = Some x \<and> b = Some y"
  by (auto simp add: two_keys_def split: option.splits)

lemma site_hour_group_eq: "site_hour_group df k = Inr (site_hour_row_of df k)"
  by (simp add: site_hour_group_def site_hour_row_of_def p95_agg_total Let_def)

lemma site_hour_table_eq:
  "site_hour_table df = Inr (map (site_hour_row_of df) (groupby_keys site_hour_key df))"
proof -
  have "site_hour_group df = (\<lambda>k. Inr (site_hour_row_of df k))"
    by (rule ext) (rule site_hour_group_eq)
  then show ?thesis
    by (simp add: site_hour_table_def collect_Inr)
qed

lemma compute_aggregations_eq:
  "compute_aggregations df =
     Inr \<lparr> site_hour = map (site_hour_row_of df) (groupby_keys site_hour_key df),
           site_day = site_day_table df,
           busy_hour = busy_hour_table df,
           congested_cells = congested_cells_table df,
           hour_of_day = hour_of_day_table df \<rparr>"
  by (simp add: compute_aggregations_def site_hour_table_eq)

lemma desc_key_le: "desc_key a \<le> desc_key b \<longleftrightarrow> b \<le> a"
  by (cases a; cases b) (simp_all add: desc_key_def)

lemma desc_key_less: "desc_key a < desc_key b \<longleftrightarrow> b < a"
  using desc_key_le [of b a] by (simp add: not_le [symmetric])

lemma desc_pair_le:
  "(desc_key u1, desc_key l1) \<le> (desc_key u2, desc_key l2) \<longleftrightarrow> (u2, l2) \<le> (u1, l1)"
  by (auto simp add: desc_key_le desc_key_less)

text \<open>
  C3. \<open>congested_cells\<close> consists exactly of the input rows whose utilization is at
  least 80 (the function takes no threshold), each as the row of its \<open>timestamp\<close>,
  \<open>region\<close>, \<open>city\<close>, \<open>site_id\<close>, \<open>cell_id\<close>, \<open>tech\<close>, \<open>utilization_pct\<close> and
  \<open>latency_ms\<close>; every row of the output has a utilization of at least 80; and the
  rows are sorted non-increasing lexicographically by (utilization_pct, latency_ms), a
  missing latency counting as the lowest value.
\<close>

theorem congested_cells_spec:
  "\<exists>out. compute_aggregations df = Inr out
     \<and> mset (congested_cells out) =
         mset (map (\<lambda>r. \<lparr> cc_timestamp = timestamp r, cc_region = region r,
                            cc_city = city r, cc_site_id = site_id r,
                            cc_cell_id = cell_id r, cc_tech = tech r,
                            cc_utilization_pct = utilization_pct r,
                            cc_latency_ms = latency_ms r \<rparr>)
                 (filter (\<lambda>r. \<exists>u. utilization_pct r = Some u \<and> 80 \<le> u) df))
     \<and> (\<forall>c\<in>set (congested_cells out). \<exists>u. cc_utilization_pct c = Some u \<and> 80 \<le> u)
     \<and> sorted_wrt (\<lambda>a b. (cc_utilization_pct b, cc_latency_ms b)
                          \<le> (cc_utilization_pct a, cc_latency_ms a)) (congested_cells out)"
proof -
  let ?P = "\<lambda>r. num_ge (utilization_pct r) 80"
  let ?k = "\<lambda>r. (desc_key (utilization_pct r), desc_key (latency_ms r))"
  have P: "?P = (\<lambda>r. \<exists>u. utilization_pct r = Some u \<and> 80 \<le> u)"
    by (rule ext) (simp add: num_ge_def split: option.splits)
  have cols: "congested_columns =
         (\<lambda>r. \<lparr> cc_timestamp = timestamp r, cc_region = region r,
                            cc_city = city r, cc_site_id = site_id r,
                            cc_cell_id = cell_id r, cc_tech = tech r,
                            cc_utilization_pct = utilization_pct r,
                            cc_latency_ms = latency_ms r \<rparr>)"
    by (rule ext) (simp add: congested_columns_def)
  have m: "mset (congested_cells_table df) = mset (map congested_columns (filter ?P df))"
    by (simp add: congested_cells_table_def)
  have ge: "\<forall>c\<in>set (congested_cells_table df). \<exists>u. cc_utilization_pct c = Some u \<and> 80 \<le> u"
    by (auto simp add: congested_cells_table_def congested_columns_def num_ge_def
        split: option.splits)
  have "sorted (map ?k (sort_key ?k (filter ?P df)))"
    by (rule sorted_sort_key)
  then have "sorted_wrt (\<lambda>a b. ?k a \<le> ?k b) (sort_key ?k (filter ?P df))"
    by (simp add: sorted_map)
  then have "sorted_wrt (\<lambda>a b. (utilization_pct b, latency_ms b) \<le> (utilization_pct a, latency_ms a))
               (sort_key ?k (filter ?P df))"
    by (simp only: desc_pair_le)
  then have s: "sorted_wrt (\<lambda>a b. (cc_utilization_pct b, cc_latency_ms b)
                          \<le> (cc_utilization_pct a, cc_latency_ms a)) (congested_cells_table df)"
    by (simp add: congested_cells_table_def sorted_wrt_map congested_columns_def)
  let ?out = "\<lparr> site_hour = map (site_hour_row_of df) (groupby_keys site_hour_key df),
           site_day = site_day_table df,
           busy_hour = busy_hour_table df,
           congested_cells = congested_cells_table df,
           hour_of_day = hour_of_day_table df \<rparr>"
  have c: "compute_aggregations df = Inr ?out"
    by (rule compute_aggregations_eq)
  have cc: "congested_cells ?out = congested_cells_table df"
    by simp
  show ?thesis
    apply (rule exI [of _ ?out])
    unfolding cc
    using c m ge s unfolding P cols by (intro conjI)
qed

text \<open>
  Of the five rows of the example, the three with a utilization of at least 80 come out
  in the order 95, 90 with latency 7, 90 with latency 5.
\<close>

theorem congested_cells_spec_witness:
  "\<exists>out. compute_aggregations congested_example = Inr out
     \<and> filter (\<lambda>r. \<exists>u. utilization_pct r = Some u \<and> 80 \<le> u) congested_example
         = [s1_row 10 (Some 90) \<lparr> latency_ms := Some 5 \<rparr>, s1_row 11 (Some 95),
            s1_row 13 (Some 90) \<lparr> latency_ms := Some 7 \<rparr>]
     \<and> map cc_timestamp (congested_cells out)
         = [timestamp (s1_row 11 (Some 95)), timestamp (s1_row 13 (Some 90)),
            timestamp (s1_row 10 (Some 90))]
     \<and> map cc_site_id (congested_cells out) = [Some ''S1'', Some ''S1'', Some ''S1'']
     \<and> map cc_utilization_pct (congested_cells out) = [Some 95, Some 90, Some 90]
     \<and> map cc_latency_ms (congested_cells out) = [None, Some 7, Some 5]
     \<and> (\<exists>u. cc_utilization_pct (congested_cells out ! 2) = Some u \<and> 80 \<le> u)"
proof -
  from congested_cells_spec [of congested_example] obtain out
    where o: "compute_aggregations congested_example = Inr out"
      and ge: "\<forall>c\<in>set (congested_cells out). \<exists>u. cc_utilization_pct c = Some u \<and> 80 \<le> u"
    by blast
  have f: "filter (\<lambda>r. \<exists>u. utilization_pct r = Some u \<and> 80 \<le> u) congested_example
         = [s1_row 10 (Some 90) \<lparr> latency_ms := Some 5 \<rparr>, s1_row 11 (Some 95),
            s1_row 13 (Some 90) \<lparr> latency_ms := Some 7 \<rparr>]"
    by (simp add: congested_example_def s1_row_def empty_row_def)
  have t: "congested_cells_table congested_example
         = map congested_columns
             [s1_row 11 (Some 95), s1_row 13 (Some 90) \<lparr> latency_ms := Some 7 \<rparr>,
              s1_row 10 (Some 90) \<lparr> latency_ms := Some 5 \<rparr>]"
    by code_simp
  from o have cc: "congested_cells out = congested_cells_table congested_example"
    by (auto simp add: compute_aggregations_eq)
  have len: "length (congested_cells out) = 3"
    by (simp add: cc t)
  then have "congested_cells out ! 2 \<in> set (congested_cells out)"
    by simp
  with ge have g2: "\<exists>u. cc_utilization_pct (congested_cells out ! 2) = Some u \<and> 80 \<le> u"
    by blast
  have vals: "map cc_timestamp (congested_cells out)
         = [timestamp (s1_row 11 (Some 95)), timestamp (s1_row 13 (Some 90)),
            timestamp (s1_row 10 (Some 90))]"
    "map cc_site_id (congested_cells out) = [Some ''S1'', Some ''S1'', Some ''S1'']"
    "map cc_utilization_pct (congested_cells out) = [Some 95, Some 90, Some 90]"
    "map cc_latency_ms (congested_cells out) = [None, Some 7, Some 5]"
    by (simp_all add: cc t congested_columns_def s1_row_def empty_row_def)
  from o f vals g2 show ?thesis
    by (intro exI [of _ out] conjI)
qed

lemma group_rows_site_hour: "group_rows site_hour_key df (s, h) = site_hour_rows df s h"
  by (simp add: group_rows_def site_hour_rows_def site_hour_key_def two_keys_Some_iff)

lemma group_rows_site_day: "group_rows site_day_key df (s, d) = site_day_rows df s d"
  by (simp add: group_rows_def site_day_rows_def site_day_key_def two_keys_Some_iff)

lemma site_hour_keys_eq:
  "{k. \<exists>r\<in>set df. site_hour_key r = Some k}
     = {(s, h). \<exists>r\<in>set df. site_id r = Some s \<and> row_hour r = Some h}"
  by (auto simp add: site_hour_key_def two_keys_Some_iff)

lemma site_day_keys_eq:
  "{k. \<exists>r\<in>set df. site_day_key r = Some k}
     = {(s, d). \<exists>r\<in>set df. site_id r = Some s \<and> row_date r = Some d}"
  by (auto simp add: site_day_key_def two_keys_Some_iff)

text \<open>
  C8, as amended. A row whose site_id or timestamp is missing belongs to no group; the
  number of rows of \<open>site_hour\<close> is the number of distinct (site_id, hour) pairs of the
  rows that have both, and the number of rows of \<open>site_day\<close> the number of distinct
  (site_id, date) pairs of the rows that have both.
\<close>

theorem group_row_counts:
  "\<exists>out. compute_aggregations df = Inr out
     \<and> length (site_hour out)
         = card {(s, h). \<exists>r\<in>set df. site_id r = Some s \<and> row_hour r = Some h}
     \<and> length (site_day out)
         = card {(s, d). \<exists>r\<in>set df. site_id r = Some s \<and> row_date r = Some d}"
  by (simp add: compute_aggregations_eq site_day_table_def length_groupby_keys
      site_hour_keys_eq site_day_keys_eq)

theorem group_row_counts_witness:
  "\<exists>out. compute_aggregations spec_example = Inr out
     \<and> length (site_hour out) = 2 \<and> length (site_day out) = 1
     \<and> card {(s, h). \<exists>r\<in>set spec_example. site_id r = Some s \<and> row_hour r = Some h} = 2
     \<and> card {(s, d). \<exists>r\<in>set spec_example. site_id r = Some s \<and> row_date r = Some d} = 1"
proof -
  from group_row_counts [of spec_example] obtain out
    where o: "compute_aggregations spec_example = Inr out"
      and h: "length (site_hour out)
         = card {(s, h). \<exists>r\<in>set spec_example. site_id r = Some s \<and> row_hour r = Some h}"
      and d: "length (site_day out)
         = card {(s, d). \<exists>r\<in>set spec_example. site_id r = Some s \<and> row_date r = Some d}"
    by blast
  have "groupby_keys site_hour_key spec_example = [(''S1'', 10), (''S1'', 11)]"
    by code_simp
  with o have lh: "length (site_hour out) = 2"
    by (auto simp add: compute_aggregations_eq)
  have "groupby_keys site_day_key spec_example = [(''S1'', 20089)]"
    by code_simp
  with o have ld: "length (site_day out) = 1"
    by (auto simp add: compute_aggregations_eq site_day_table_def)
  from o h d lh ld show ?thesis
    by (intro exI [of _ out]) simp
qed

text \<open>
  C8 as stated fails on a table with a row whose site_id is missing: the table below has
  one (site_id, hour) pair and one (site_id, date) pair, and both tables are empty.
\<close>

theorem group_row_counts_counterexample:
  "compute_aggregations [no_site_row] =
     Inr \<lparr> site_hour = [], site_day = [], busy_hour = [], congested_cells = [],
           hour_of_day = [] \<rparr>
   \<and> card ((\<lambda>r. (site_id r, row_hour r)) ` set [no_site_row]) = 1
   \<and> card ((\<lambda>r. (site_id r, row_date r)) ` set [no_site_row]) = 1"
proof -
  have "compute_aggregations [no_site_row] =
     Inr \<lparr> site_hour = [], site_day = [], busy_hour = [], congested_cells = [],
           hour_of_day = [] \<rparr>"
    by code_simp
  then show ?thesis by simp
qed

lemma mean_acc_eq:
  "mean_acc xs s n =
     (if n + length (dropna xs) = 0 then None
      else Some ((s + sum_list (dropna xs)) / of_nat (n + length (dropna xs))))"
  by (induction xs s n rule: mean_acc.induct) (simp_all add: add.assoc)

lemma mean_agg_eq: "mean_agg xs = spec_mean (dropna xs)"
  by (simp add: mean_agg_def mean_acc_eq spec_mean_def)

lemma max_acc_eq:
  "max_acc xs m =
     (case m of None \<Rightarrow> (if dropna xs = [] then None else Some (Max (set (dropna xs))))
      | Some w \<Rightarrow> Some (Max (insert w (set (dropna xs)))))"
proof (induction xs m rule: max_acc.induct)
  case (1 m)
  then show ?case by (simp split: option.splits)
next
  case (2 xs m)
  then show ?case by (simp split: option.splits)
next
  case (3 v xs m)
  have "Max (insert (max w v) (set ys)) = Max (insert w (insert v (set ys)))"
    for w and ys :: "rat list"
    by (cases "ys = []") (simp_all add: max.assoc)
  with 3 show ?case
    by (simp split: option.splits)
qed

lemma max_agg_eq: "max_agg xs = spec_max (dropna xs)"
  by (simp add: max_agg_def max_acc_eq spec_max_def)

lemma site_hour_row_of_sel:
  "sh_site_id (site_hour_row_of df (s, h)) = s"
  "sh_hour (site_hour_row_of df (s, h)) = h"
  "sh_avg_util (site_hour_row_of df (s, h))
     = spec_mean (dropna (map utilization_pct (site_hour_rows df s h)))"
  "sh_p95_util (site_hour_row_of df (s, h))
     = (case np_percentile (dropna (map utilization_pct (site_hour_rows df s h))) 95 of
          Inl e \<Rightarrow> None | Inr v \<Rightarrow> Some v)"
  "sh_avg_latency (site_hour_row_of df (s, h))
     = spec_mean (dropna (map latency_ms (site_hour_rows df s h)))"
  "sh_users (site_hour_row_of df (s, h))
     = spec_mean (dropna (map users_active (site_hour_rows df s h)))"
  by (simp_all add: site_hour_row_of_def Let_def group_rows_site_hour mean_agg_eq)

lemma site_day_group_sel:
  "sd_site_id (site_day_group df (s, d)) = s"
  "sd_date (site_day_group df (s, d)) = d"
  "sd_avg_util (site_day_group df (s, d))
     = spec_mean (dropna (map utilization_pct (site_day_rows df s d)))"
  "sd_peak_util (site_day_group df (s, d))
     = spec_max (dropna (map utilization_pct (site_day_rows df s d)))"
  "sd_avg_latency (site_day_group df (s, d))
     = spec_mean (dropna (map latency_ms (site_day_rows df s d)))"
  "sd_users (site_day_group df (s, d))
     = spec_mean (dropna (map users_active (site_day_rows df s d)))"
  by (simp_all add: site_day_group_def Let_def group_rows_site_day mean_agg_eq max_agg_eq)

text \<open>
  C4. \<open>compute_aggregations\<close> returns for every table. In every row of \<open>site_hour\<close> and
  of \<open>site_day\<close>, each mean and the maximum is that of the non-missing cells of the
  group, \<open>p95_util\<close> is the percentile of the non-missing utilizations of the group when
  there is one, and an aggregate over a column whose cells are all missing in the group
  is missing.
\<close>

theorem aggregates_skip_missing:
  "\<exists>out. compute_aggregations df = Inr out
     \<and> (\<forall>g\<in>set (site_hour out).
          sh_avg_util g
            = spec_mean (dropna (map utilization_pct (site_hour_rows df (sh_site_id g) (sh_hour g))))
        \<and> (dropna (map utilization_pct (site_hour_rows df (sh_site_id g) (sh_hour g))) \<noteq> []
             \<longrightarrow> (\<exists>v. sh_p95_util g = Some v
                   \<and> np_percentile
                        (dropna (map utilization_pct (site_hour_rows df (sh_site_id g) (sh_hour g))))
                        95 = Inr v))
        \<and> sh_avg_latency g
            = spec_mean (dropna (map latency_ms (site_hour_rows df (sh_site_id g) (sh_hour g))))
        \<and> sh_users g
            = spec_mean (dropna (map users_active (site_hour_rows df (sh_site_id g) (sh_hour g))))
        \<and> ((\<forall>r\<in>set (site_hour_rows df (sh_site_id g) (sh_hour g)). utilization_pct r = None)
             \<longrightarrow> sh_avg_util g = None \<and> sh_p95_util g = None)
        \<and> ((\<forall>r\<in>set (site_hour_rows df (sh_site_id g) (sh_hour g)). latency_ms r = None)
             \<longrightarrow> sh_avg_latency g = None)
        \<and> ((\<forall>r\<in>set (site_hour_rows df (sh_site_id g) (sh_hour g)). users_active r = None)
             \<longrightarrow> sh_users g = None))
     \<and> (\<forall>g\<in>set (site_day out).
          sd_avg_util g
            = spec_mean (dropna (map utilization_pct (site_day_rows df (sd_site_id g) (sd_date g))))
        \<and> sd_peak_util g
            = spec_max (dropna (map utilization_pct (site_day_rows df (sd_site_id g) (sd_date g))))
        \<and> sd_avg_latency g
            = spec_mean (dropna (map latency_ms (site_day_rows df (sd_site_id g) (sd_date g))))
        \<and> sd_users g
            = spec_mean (dropna (map users_active (site_day_rows df (sd_site_id g) (sd_date g))))
        \<and> ((\<forall>r\<in>set (site_day_rows df (sd_site_id g) (sd_date g)). utilization_pct r = None)
             \<longrightarrow> sd_avg_util g = None \<and> sd_peak_util g = None)
        \<and> ((\<forall>r\<in>set (site_day_rows df (sd_site_id g) (sd_date g)). latency_ms r = None)
             \<longrightarrow> sd_avg_latency g = None)
        \<and> ((\<forall>r\<in>set (site_day_rows df (sd_site_id g) (sd_date g)). users_active r = None)
             \<longrightarrow> sd_users g = None))"
  (is "\<exists>out. _ \<and> (\<forall>g\<in>_. ?SH g) \<and> (\<forall>g\<in>_. ?SD g)")
proof -
  have sh: "?SH (site_hour_row_of df k)" for k
  proof -
    obtain s h where k: "k = (s, h)" by (cases k)
    show ?thesis
      unfolding k
      by (simp add: site_hour_row_of_sel dropna_empty_iff spec_mean_def
          np_percentile_def Let_def)
  qed
  have sd: "?SD (site_day_group df k)" for k
  proof -
    obtain s d where k: "k = (s, d)" by (cases k)
    show ?thesis
      unfolding k
      by (simp add: site_day_group_sel dropna_empty_iff spec_mean_def spec_max_def)
  qed
  have a: "\<forall>g\<in>set (map (site_hour_row_of df) (groupby_keys site_hour_key df)). ?SH g"
  proof
    fix g
    assume "g \<in> set (map (site_hour_row_of df) (groupby_keys site_hour_key df))"
    then obtain k where g: "g = site_hour_row_of df k"
      by auto
    show "?SH g"
      unfolding g by (rule sh)
  qed
  have b: "\<forall>g\<in>set (site_day_table df). ?SD g"
  proof
    fix g
    assume "g \<in> set (site_day_table df)"
    then obtain k where g: "g = site_day_group df k"
      by (auto simp add: site_day_table_def)
    show "?SD g"
      unfolding g by (rule sd)
  qed
  let ?out = "\<lparr> site_hour = map (site_hour_row_of df) (groupby_keys site_hour_key df),
           site_day = site_day_table df,
           busy_hour = busy_hour_table df,
           congested_cells = congested_cells_table df,
           hour_of_day = hour_of_day_table df \<rparr>"
  have c: "compute_aggregations df = Inr ?out"
    by (rule compute_aggregations_eq)
  have a': "\<forall>g\<in>set (site_hour ?out). ?SH g"
    using a by (simp only: aggregations.simps)
  have b': "\<forall>g\<in>set (site_day ?out). ?SD g"
    using b by (simp only: aggregations.simps)
  show ?thesis
    using c a' b' by (intro exI [of _ ?out] conjI)
qed

text \<open>
  At hour 10 of the table below every utilization is missing, and the mean and the
  percentile are missing; at hour 11 the cells are 10 and missing, and the mean is 10,
  not 5.
\<close>

theorem aggregates_skip_missing_witness:
  "\<exists>out g1 g2. compute_aggregations missing_example = Inr out
     \<and> site_hour out = [g1, g2]
     \<and> sh_site_id g1 = ''S1'' \<and> sh_hour g1 = 10
     \<and> map utilization_pct (site_hour_rows missing_example ''S1'' 10) = [None]
     \<and> sh_avg_util g1 = None \<and> sh_p95_util g1 = None
     \<and> sh_site_id g2 = ''S1'' \<and> sh_hour g2 = 11
     \<and> map utilization_pct (site_hour_rows missing_example ''S1'' 11) = [Some 10, None]
     \<and> sh_avg_util g2 = Some 10 \<and> sh_p95_util g2 = Some 10"
proof -
  from aggregates_skip_missing [of missing_example] obtain out
    where o: "compute_aggregations missing_example = Inr out"
      and sh: "\<forall>g\<in>set (site_hour out).
          sh_avg_util g
            = spec_mean (dropna (map utilization_pct
                (site_hour_rows missing_example (sh_site_id g) (sh_hour g))))
          \<and> ((\<forall>r\<in>set (site_hour_rows missing_example (sh_site_id g) (sh_hour g)).
                 utilization_pct r = None)
             \<longrightarrow> sh_avg_util g = None \<and> sh_p95_util g = None)"
    by blast
  let ?g1 = "site_hour_row_of missing_example (''S1'', 10)"
  let ?g2 = "site_hour_row_of missing_example (''S1'', 11)"
  have "groupby_keys site_hour_key missing_example = [(''S1'', 10), (''S1'', 11)]"
    by code_simp
  with o have out: "site_hour out = [?g1, ?g2]"
    by (auto simp add: compute_aggregations_eq)
  have r1: "map utilization_pct (site_hour_rows missing_example ''S1'' 10) = [None]"
    by code_simp
  have r2: "map utilization_pct (site_hour_rows missing_example ''S1'' 11) = [Some 10, None]"
    by code_simp
  have "set (map utilization_pct (site_hour_rows missing_example ''S1'' 10)) = {None}"
    by (simp only: r1) simp
  then have all_missing:
    "\<forall>r\<in>set (site_hour_rows missing_example ''S1'' 10). utilization_pct r = None"
    by auto
  from out have m1: "?g1 \<in> set (site_hour out)" and m2: "?g2 \<in> set (site_hour out)"
    by simp_all
  from sh m1 have
    "(\<forall>r\<in>set (site_hour_rows missing_example (sh_site_id ?g1) (sh_hour ?g1)).
         utilization_pct r = None)
       \<longrightarrow> sh_avg_util ?g1 = None \<and> sh_p95_util ?g1 = None"
    by blast
  with all_missing have n1: "sh_avg_util ?g1 = None \<and> sh_p95_util ?g1 = None"
    by (simp only: site_hour_row_of_sel)
  from sh m2 have
    "sh_avg_util ?g2 = spec_mean (dropna (map utilization_pct
         (site_hour_rows missing_example (sh_site_id ?g2) (sh_hour ?g2))))"
    by blast
  then have n2: "sh_avg_util ?g2 = Some 10"
    by (simp only: site_hour_row_of_sel(1,2) r2) (simp add: spec_mean_def)
  have p2: "sh_p95_util ?g2 = Some 10"
    by (simp only: site_hour_row_of_sel r2) code_simp
  from o out r1 r2 n1 n2 p2 show ?thesis
    by (intro exI [of _ out] exI [of _ ?g1] exI [of _ ?g2]) (simp add: site_hour_row_of_sel)
qed

lemma head1_acc_split:
  "b \<in> set (head1_acc key seen xs) \<Longrightarrow>
     \<exists>ys zs. xs = ys @ b # zs \<and> key b \<notin> key ` set ys \<and> key b \<notin> set seen"
proof (induction xs arbitrary: seen)
  case Nil
  then show ?case by simp
next
  case (Cons x xs)
  show ?case
  proof (cases "key x \<in> set seen")
    case True
    with Cons.prems have "b \<in> set (head1_acc key seen xs)" by simp
    from Cons.IH [OF this] obtain ys zs
      where *: "xs = ys @ b # zs" "key b \<notin> key ` set ys" "key b \<notin> set seen"
      by blast
    with True have "x # xs = (x # ys) @ b # zs \<and> key b \<notin> key ` set (x # ys) \<and> key b \<notin> set seen"
      by auto
    then show ?thesis by blast
  next
    case False
    with Cons.prems have "b = x \<or> b \<in> set (head1_acc key (key x # seen) xs)" by simp
    then show ?thesis
    proof
      assume "b = x"
      with False have "x # xs = [] @ b # xs \<and> key b \<notin> key ` set [] \<and> key b \<notin> set seen"
        by simp
      then show ?thesis by blast
    next
      assume "b \<in> set (head1_acc key (key x # seen) xs)"
      from Cons.IH [OF this] obtain ys zs
        where *: "xs = ys @ b # zs" "key b \<notin> key ` set ys" "key b \<notin> set (key x # seen)"
        by blast
      then have "x # xs = (x # ys) @ b # zs \<and> key b \<notin> key ` set (x # ys) \<and> key b \<notin> set seen"
        by auto
      then show ?thesis by blast
    qed
  qed
qed

lemma keys_head1_acc: "key ` set (head1_acc key seen xs) = key ` set xs - set seen"
  by (induction xs arbitrary: seen) auto

lemma distinct_head1_acc: "distinct (map key (head1_acc key seen xs))"
proof (induction xs arbitrary: seen)
  case Nil
  then show ?case by simp
next
  case (Cons x xs)
  have "key x \<notin> key ` set (head1_acc key (key x # seen) xs)"
    by (simp add: keys_head1_acc)
  with Cons show ?case by simp
qed

lemma groupby_head1_split:
  "b \<in> set (groupby_head1 key xs) \<Longrightarrow> \<exists>ys zs. xs = ys @ b # zs \<and> key b \<notin> key ` set ys"
  unfolding groupby_head1_def by (drule head1_acc_split) blast

lemma keys_groupby_head1: "key ` set (groupby_head1 key xs) = key ` set xs"
  by (simp add: groupby_head1_def keys_head1_acc)

lemma distinct_groupby_head1: "distinct (map key (groupby_head1 key xs))"
  by (simp add: groupby_head1_def distinct_head1_acc)

lemma hour_avg_table_keys:
  "map (\<lambda>t. (bh_site_id t, bh_hour t)) (hour_avg_table df) = groupby_keys site_hour_key df"
  by (simp add: hour_avg_table_def hour_avg_row_def comp_def)

lemma hour_avg_table_mem:
  "t \<in> set (hour_avg_table df) \<longleftrightarrow>
     bh_hour t \<in> site_hours df (bh_site_id t)
     \<and> bh_hour_avg_util t = hour_mean df (bh_site_id t) (bh_hour t)"
proof -
  have "set (groupby_keys site_hour_key df)
          = {(s, h). \<exists>r\<in>set df. site_id r = Some s \<and> row_hour r = Some h}"
    by (simp add: set_groupby_keys site_hour_keys_eq)
  then have "t \<in> set (hour_avg_table df) \<longleftrightarrow>
          (\<exists>s h. (\<exists>r\<in>set df. site_id r = Some s \<and> row_hour r = Some h)
                 \<and> t = hour_avg_row df (s, h))"
    by (auto simp add: hour_avg_table_def)
  also have "\<dots> \<longleftrightarrow> bh_hour t \<in> site_hours df (bh_site_id t)
     \<and> bh_hour_avg_util t = hour_mean df (bh_site_id t) (bh_hour t)"
    by (cases t) (auto simp add: hour_avg_row_def site_hours_def hour_mean_def
        group_rows_site_hour mean_agg_eq)
  finally show ?thesis .
qed

lemma busy_hour_row_max:
  assumes b: "b \<in> set (busy_hour_table df)"
    and t: "t \<in> set (hour_avg_table df)"
    and site: "bh_site_id t = bh_site_id b"
  shows "bh_hour_avg_util t \<le> bh_hour_avg_util b"
    and "bh_hour_avg_util t = bh_hour_avg_util b \<Longrightarrow> bh_hour b \<le> bh_hour t"
proof -
  let ?f = "\<lambda>t. (bh_site_id t, desc_key (bh_hour_avg_util t))"
  let ?k = "\<lambda>t. (bh_site_id t, bh_hour t)"
  let ?T = "hour_avg_table df"
  let ?S = "sort_key ?f ?T"
  from b obtain ys zs where S: "?S = ys @ b # zs" and first: "bh_site_id b \<notin> bh_site_id ` set ys"
    unfolding busy_hour_table_def by (blast dest: groupby_head1_split)
  have "sorted (map ?f ?S)"
    by (rule sorted_sort_key)
  then have later: "\<forall>z\<in>set zs. ?f b \<le> ?f z"
    unfolding S by (simp add: sorted_append)
  have "t \<in> set ?S"
    using t by simp
  then have "t \<in> set ys \<or> t = b \<or> t \<in> set zs"
    unfolding S by auto
  with first site have "t = b \<or> t \<in> set zs"
    by (metis imageI)
  with later have "?f b \<le> ?f t"
    by auto
  with site show "bh_hour_avg_util t \<le> bh_hour_avg_util b"
    by (simp add: desc_key_le)
  assume "bh_hour_avg_util t = bh_hour_avg_util b"
  with site have ft: "?f t = ?f b"
    by simp
  let ?P = "\<lambda>y. ?f y = ?f b"
  have "filter ?P ys = []"
    using first by (auto simp add: filter_empty_conv) (metis imageI)
  then have "filter ?P ?S = b # filter ?P zs"
    unfolding S by simp
  moreover have "filter ?P ?S = filter ?P ?T"
    by (rule sort_key_stable)
  ultimately have T: "filter ?P ?T = b # filter ?P zs"
    by simp
  have "sorted (map ?k ?T)"
    by (simp only: hour_avg_table_keys sorted_groupby_keys)
  then have "sorted (map ?k (filter ?P ?T))"
    by (rule sorted_filter)
  then have "\<forall>z\<in>set (filter ?P zs). ?k b \<le> ?k z"
    unfolding T by simp
  moreover have "t \<in> set (filter ?P ?T)"
    using t ft by simp
  then have "t = b \<or> t \<in> set (filter ?P zs)"
    unfolding T by simp
  ultimately have "?k b \<le> ?k t"
    by auto
  with site show "bh_hour b \<le> bh_hour t"
    by simp
qed

lemma busy_hour_subset: "set (busy_hour_table df) \<subseteq> set (hour_avg_table df)"
proof
  fix b
  assume "b \<in> set (busy_hour_table df)"
  then obtain ys zs
    where "sort_key (\<lambda>t. (bh_site_id t, desc_key (bh_hour_avg_util t))) (hour_avg_table df)
             = ys @ b # zs"
    unfolding busy_hour_table_def by (blast dest: groupby_head1_split)
  then have "b \<in> set (sort_key (\<lambda>t. (bh_site_id t, desc_key (bh_hour_avg_util t)))
                        (hour_avg_table df))"
    by simp
  then show "b \<in> set (hour_avg_table df)"
    by simp
qed

lemma busy_hour_sites:
  "set (map bh_site_id (busy_hour_table df))
     = {s. \<exists>r\<in>set df. site_id r = Some s \<and> timestamp r \<noteq> None}"
proof -
  have "set (map bh_site_id (busy_hour_table df)) = bh_site_id ` set (hour_avg_table df)"
    by (simp add: busy_hour_table_def keys_groupby_head1)
  also have "\<dots> = fst ` set (groupby_keys site_hour_key df)"
    by (simp add: hour_avg_table_def hour_avg_row_def image_image)
  also have "\<dots> = {s. \<exists>r\<in>set df. site_id r = Some s \<and> timestamp r \<noteq> None}"
    by (auto simp add: set_groupby_keys site_hour_key_def two_keys_Some_iff row_hour_def image_iff)
      blast+
  finally show ?thesis .
qed

text \<open>
  C1, as amended. \<open>busy_hour\<close> has exactly one row for each distinct site_id that is
  not missing and occurs in a row with a timestamp. The row gives an hour of that site
  with its mean utilization; no hour of the site has a higher mean (a missing mean
  counts as the lowest), and among the hours with the same mean it is the lowest hour.
\<close>

theorem busy_hour_spec:
  "\<exists>out. compute_aggregations df = Inr out
     \<and> distinct (map bh_site_id (busy_hour out))
     \<and> set (map bh_site_id (busy_hour out))
         = {s. \<exists>r\<in>set df. site_id r = Some s \<and> timestamp r \<noteq> None}
     \<and> (\<forall>b\<in>set (busy_hour out).
           bh_hour b \<in> site_hours df (bh_site_id b)
         \<and> bh_hour_avg_util b = hour_mean df (bh_site_id b) (bh_hour b)
         \<and> (\<forall>h\<in>site_hours df (bh_site_id b).
               hour_mean df (bh_site_id b) h \<le> bh_hour_avg_util b
             \<and> (hour_mean df (bh_site_id b) h = bh_hour_avg_util b \<longrightarrow> bh_hour b \<le> h)))"
proof -
  have d: "distinct (map bh_site_id (busy_hour_table df))"
    by (simp add: busy_hour_table_def distinct_groupby_head1)
  have m: "bh_hour b \<in> site_hours df (bh_site_id b)
         \<and> bh_hour_avg_util b = hour_mean df (bh_site_id b) (bh_hour b)
         \<and> (\<forall>h\<in>site_hours df (bh_site_id b).
               hour_mean df (bh_site_id b) h \<le> bh_hour_avg_util b
             \<and> (hour_mean df (bh_site_id b) h = bh_hour_avg_util b \<longrightarrow> bh_hour b \<le> h))"
    if b: "b \<in> set (busy_hour_table df)" for b
  proof (intro conjI ballI impI)
    from b have bT: "b \<in> set (hour_avg_table df)"
      using busy_hour_subset by blast
    then show "bh_hour b \<in> site_hours df (bh_site_id b)"
      and "bh_hour_avg_util b = hour_mean df (bh_site_id b) (bh_hour b)"
      by (simp_all add: hour_avg_table_mem)
    fix h
    assume h: "h \<in> site_hours df (bh_site_id b)"
    let ?t = "\<lparr> bh_site_id = bh_site_id b, bh_hour = h,
                bh_hour_avg_util = hour_mean df (bh_site_id b) h \<rparr>"
    have t: "?t \<in> set (hour_avg_table df)"
      using h by (simp add: hour_avg_table_mem)
    from busy_hour_row_max(1) [OF b t]
    show "hour_mean df (bh_site_id b) h \<le> bh_hour_avg_util b"
      by simp
    assume "hour_mean df (bh_site_id b) h = bh_hour_avg_util b"
    with busy_hour_row_max(2) [OF b t]
    show "bh_hour b \<le> h"
      by simp
  qed
  let ?out = "\<lparr> site_hour = map (site_hour_row_of df) (groupby_keys site_hour_key df),
           site_day = site_day_table df,
           busy_hour = busy_hour_table df,
           congested_cells = congested_cells_table df,
           hour_of_day = hour_of_day_table df \<rparr>"
  have c: "compute_aggregations df = Inr ?out"
    by (rule compute_aggregations_eq)
  have bh: "busy_hour ?out = busy_hour_table df"
    by simp
  show ?thesis
    apply (rule exI [of _ ?out])
    unfolding bh
    using c d busy_hour_sites [of df] m by (intro conjI ballI) blast+
qed

text \<open>The specification's example: site \<open>S1\<close> has its busy hour at 11 (mean 90 against 50).\<close>

theorem busy_hour_spec_witness:
  "\<exists>out. compute_aggregations spec_example = Inr out
     \<and> busy_hour out = [\<lparr> bh_site_id = ''S1'', bh_hour = 11, bh_hour_avg_util = Some 90 \<rparr>]
     \<and> 10 \<in> site_hours spec_example ''S1''
     \<and> hour_mean spec_example ''S1'' 10 \<le> Some 90"
proof -
  from busy_hour_spec [of spec_example] obtain out
    where o: "compute_aggregations spec_example = Inr out"
      and m: "\<forall>b\<in>set (busy_hour out). \<forall>h\<in>site_hours spec_example (bh_site_id b).
                 hour_mean spec_example (bh_site_id b) h \<le> bh_hour_avg_util b"
    by blast
  have "busy_hour_table spec_example
          = [\<lparr> bh_site_id = ''S1'', bh_hour = 11, bh_hour_avg_util = Some 90 \<rparr>]"
    by code_simp
  with o have b: "busy_hour out
          = [\<lparr> bh_site_id = ''S1'', bh_hour = 11, bh_hour_avg_util = Some 90 \<rparr>]"
    by (auto simp add: compute_aggregations_eq)
  have "row_hour (s1_row 10 (Some 40)) = Some 10"
    by (simp add: s1_row_def empty_row_def row_hour_def dt_hour_def NS_PER_DAY_def
        NS_PER_HOUR_def NS_PER_SEC_def)
  then have h: "10 \<in> site_hours spec_example ''S1''"
    by (auto simp add: site_hours_def spec_example_def s1_row_def empty_row_def)
  from m b h have "hour_mean spec_example ''S1'' 10 \<le> Some 90"
    by simp
  with o b h show ?thesis by blast
qed

text \<open>
  C1 as stated fails on a table with a row whose site_id is missing: the table below has
  two distinct site_id values, \<open>S1\<close> and the missing one, and \<open>busy_hour\<close> has one row.
\<close>

theorem busy_hour_counterexample:
  "compute_aggregations [s1_row 10 (Some 40), no_site_row] =
     Inr \<lparr> site_hour = [\<lparr> sh_site_id = ''S1'', sh_hour = 10, sh_avg_util = Some 40,
                           sh_p95_util = Some 40, sh_avg_latency = None, sh_users = None \<rparr>],
           site_day = [\<lparr> sd_site_id = ''S1'', sd_date = 20089, sd_avg_util = Some 40,
                          sd_peak_util = Some 40, sd_avg_latency = None, sd_users = None \<rparr>],
           busy_hour = [\<lparr> bh_site_id = ''S1'', bh_hour = 10, bh_hour_avg_util = Some 40 \<rparr>],
           congested_cells = [],
           hour_of_day = [] \<rparr>
   \<and> card (site_id ` set [s1_row 10 (Some 40), no_site_row]) = 2"
proof -
  have "compute_aggregations [s1_row 10 (Some 40), no_site_row] =
     Inr \<lparr> site_hour = [\<lparr> sh_site_id = ''S1'', sh_hour = 10, sh_avg_util = Some 40,
                           sh_p95_util = Some 40, sh_avg_latency = None, sh_users = None \<rparr>],
           site_day = [\<lparr> sd_site_id = ''S1'', sd_date = 20089, sd_avg_util = Some 40,
                          sd_peak_util = Some 40, sd_avg_latency = None, sd_users = None \<rparr>],
           busy_hour = [\<lparr> bh_site_id = ''S1'', bh_hour = 10, bh_hour_avg_util = Some 40 \<rparr>],
           congested_cells = [],
           hour_of_day = [] \<rparr>"
    by code_simp
  moreover have "card (site_id ` set [s1_row 10 (Some 40), no_site_row]) = 2"
    by (simp add: s1_row_def no_site_row_def empty_row_def)
  ultimately show ?thesis by simp
qed

end
